theory Spec2Isabelle
  imports Main "HOL-Library.Word"
begin

section \<open>Result taxonomy (result.h)\<close>

text \<open>
  \<^verbatim>\<open>typedef int result_t;\<close> A C \<^verbatim>\<open>int\<close> is modelled as a 32-bit word: \<open>sint\<close> reads it as
  the signed value the C code compares, \<open>unat\<close> as the unsigned value that the
  conversion \<^verbatim>\<open>%x\<close> prints.
\<close>

type_synonym c_int = "32 word"
type_synonym result_t = c_int

text \<open>\<^verbatim>\<open>true\<close> and \<^verbatim>\<open>false\<close> of stdbool.h, as the integers they expand to.\<close>

definition c_true :: c_int where
  "c_true = 1"

definition c_false :: c_int where
  "c_false = 0"

text \<open>\<^verbatim>\<open>enum result\<close>, enumerator by enumerator.\<close>

definition RESULT_INVALID_OBJECT :: result_t where
  "RESULT_INVALID_OBJECT = - 2"

definition RESULT_INTERNAL_ERROR :: result_t where
  "RESULT_INTERNAL_ERROR = - 3"

definition RESULT_BAD_PARAM :: result_t where
  "RESULT_BAD_PARAM = - 1"

definition RESULT_SUCCESS :: result_t where
  "RESULT_SUCCESS = 0"

definition RESULT_FAILURE :: result_t where
  "RESULT_FAILURE = 1"

definition RESULT_DONE :: result_t where
  "RESULT_DONE = 2"

definition RESULT_VALID_OBJECT :: result_t where
  "RESULT_VALID_OBJECT = RESULT_SUCCESS"

definition RESULT_TRUE :: result_t where
  "RESULT_TRUE = c_true"

definition RESULT_FALSE :: result_t where
  "RESULT_FALSE = c_false"

section \<open>Classification predicates (lurk.c)\<close>

definition is_success :: "result_t \<Rightarrow> bool" where
  "is_success result = (if result = RESULT_SUCCESS then True else False)"

definition is_failure :: "result_t \<Rightarrow> bool" where
  "is_failure result = (if result = RESULT_FAILURE then True else False)"

definition is_valid_object :: "result_t \<Rightarrow> bool" where
  "is_valid_object result = (if result = RESULT_VALID_OBJECT then True else False)"

definition is_error :: "result_t \<Rightarrow> bool" where
  "is_error result = (result <s 0)"

text \<open>
  The \<^verbatim>\<open>switch\<close> of \<^verbatim>\<open>is_lurk_err\<close>: three case labels falling through to
  \<^verbatim>\<open>return true\<close>, the default label breaking out to \<^verbatim>\<open>return false\<close>.
\<close>

definition is_lurk_err :: "result_t \<Rightarrow> bool" where
  "is_lurk_err result =
     (if result = RESULT_INVALID_OBJECT then True
      else if result = RESULT_INTERNAL_ERROR then True
      else if result = RESULT_BAD_PARAM then True
      else False)"

definition is_true :: "result_t \<Rightarrow> bool" where
  "is_true result = (if result = RESULT_TRUE then True else False)"

definition is_false :: "result_t \<Rightarrow> bool" where
  "is_false result = (if result = RESULT_FALSE then True else False)"

section \<open>The printf conversions the reporters use\<close>

text \<open>
  The reporters print through \<^verbatim>\<open>fprintf\<close> with the format strings
  \<^verbatim>\<open>"%02d:%02d:%02d  %08x  [%s]  %s"\<close>, \<^verbatim>\<open>"%02d:%02d:%02d  %08x  [%s:%s.%s]  %s"\<close> and
  \<^verbatim>\<open>"%s"\<close>. The model interprets a format string as printf does, for the conversions
  \<^verbatim>\<open>d\<close>, \<^verbatim>\<open>x\<close>, \<^verbatim>\<open>s\<close> and \<^verbatim>\<open>%\<close> with the flag \<^verbatim>\<open>0\<close> and a decimal field width;
  any other directive, a missing argument or an argument of the wrong kind gives \<open>None\<close>.
  An argument is a C \<^verbatim>\<open>int\<close> or a \<^verbatim>\<open>const char*\<close> (\<open>None\<close> is \<^verbatim>\<open>NULL\<close>, which \<^verbatim>\<open>%s\<close>
  must not receive).
\<close>

datatype c_arg = Arg_int c_int | Arg_str "string option"

definition digit_char :: "nat \<Rightarrow> char" where
  "digit_char d = ''0123456789abcdef'' ! d"

fun dec_digits :: "nat \<Rightarrow> string" where
  "dec_digits n =
     (if n < 10 then [digit_char n] else dec_digits (n div 10) @ [digit_char (n mod 10)])"

fun hex_digits :: "nat \<Rightarrow> string" where
  "hex_digits n =
     (if n < 16 then [digit_char n] else hex_digits (n div 16) @ [digit_char (n mod 16)])"

declare dec_digits.simps [simp del] hex_digits.simps [simp del]

definition pad_to :: "nat \<Rightarrow> char \<Rightarrow> string \<Rightarrow> string" where
  "pad_to w c s = replicate (w - length s) c @ s"

text \<open>
  \<^verbatim>\<open>%d\<close>: the sign, then the decimal digits of the magnitude; the flag \<^verbatim>\<open>0\<close> pads with
  zeros between sign and digits, otherwise blanks go in front.
\<close>

definition conv_d :: "bool \<Rightarrow> nat \<Rightarrow> c_int \<Rightarrow> string" where
  "conv_d zero w v =
     (let sign = (if v <s 0 then [CHR ''-''] else []);
          ds = dec_digits (nat \<bar>sint v\<bar>)
      in if zero then sign @ pad_to (w - length sign) (CHR ''0'') ds
         else pad_to w (CHR '' '') (sign @ ds))"

text \<open>\<^verbatim>\<open>%x\<close> reads the same 32 bits as \<^verbatim>\<open>unsigned\<close> and prints lower-case hexadecimal.\<close>

definition conv_x :: "bool \<Rightarrow> nat \<Rightarrow> c_int \<Rightarrow> string" where
  "conv_x zero w v = pad_to w (if zero then CHR ''0'' else CHR '' '') (hex_digits (unat v))"

definition conv_s :: "nat \<Rightarrow> string \<Rightarrow> string" where
  "conv_s w t = pad_to w (CHR '' '') t"

definition is_digit :: "char \<Rightarrow> bool" where
  "is_digit c = (c \<in> set ''0123456789'')"

definition digit_val :: "char \<Rightarrow> nat" where
  "digit_val c = of_char c - 48"

datatype fmt_state = Literal | Width bool nat

fun printf_run :: "fmt_state \<Rightarrow> string \<Rightarrow> c_arg list \<Rightarrow> string option" where
  "printf_run Literal [] args = Some []"
| "printf_run Literal (c # cs) args =
     (if c = CHR ''%'' then
        (case cs of
           [] \<Rightarrow> None
         | d # ds \<Rightarrow>
             if d = CHR ''0'' then printf_run (Width True 0) ds args
             else printf_run (Width False 0) cs args)
      else map_option ((#) c) (printf_run Literal cs args))"
| "printf_run (Width z w) [] args = None"
| "printf_run (Width z w) (c # cs) args =
     (if is_digit c then printf_run (Width z (10 * w + digit_val c)) cs args
      else if c = CHR ''d'' then
        (case args of
           Arg_int v # rest \<Rightarrow> map_option ((@) (conv_d z w v)) (printf_run Literal cs rest)
         | _ \<Rightarrow> None)
      else if c = CHR ''x'' then
        (case args of
           Arg_int v # rest \<Rightarrow> map_option ((@) (conv_x z w v)) (printf_run Literal cs rest)
         | _ \<Rightarrow> None)
      else if c = CHR ''s'' then
        (case args of
           Arg_str (Some t) # rest \<Rightarrow> map_option ((@) (conv_s w t)) (printf_run Literal cs rest)
         | _ \<Rightarrow> None)
      else if c = CHR ''%'' then map_option ((#) c) (printf_run Literal cs args)
      else None)"

definition c_format :: "string \<Rightarrow> c_arg list \<Rightarrow> string option" where
  "c_format fmt args = printf_run Literal fmt args"

section \<open>Configuration record and program state\<close>

text \<open>
  A function pointer is either the address of the library's own reporter or the address
  of a function of the calling program, told apart by a number.
\<close>

datatype log_fn_ptr = Log_default | Log_custom nat

datatype err_fn_ptr = Err_default | Err_custom nat

text \<open>\<^verbatim>\<open>struct result_config\<close>; a \<^verbatim>\<open>NULL\<close> pointer field is \<open>None\<close>.\<close>

record result_config_t =
  projname :: "string option"
  prefix :: "string option"
  postfix :: "string option"
  do_log :: bool
  do_err :: bool
  log_fn :: "log_fn_ptr option"
  err_fn :: "err_fn_ptr option"

text \<open>The three fields of \<^verbatim>\<open>struct tm\<close> that the reporters read.\<close>

record tm =
  tm_hour :: c_int
  tm_min :: c_int
  tm_sec :: c_int

text \<open>
  The state the library reads and writes:
  \<^item> \<open>result_config\<close> is the static pointer \<^verbatim>\<open>result_config\<close> (\<open>None\<close> is \<^verbatim>\<open>NULL\<close>);
  \<^item> \<open>configs\<close> is the memory holding the caller's configuration structs, by address;
    the library keeps the pointer, not a copy, so a later store to the struct is seen;
  \<^item> \<open>stdout\<close> and \<open>stderr\<close> hold the text written to the two streams so far;
  \<^item> \<open>gmtime_now\<close> is what \<^verbatim>\<open>gmtime(&traw)\<close> yields for the current time (\<open>None\<close> is
    \<^verbatim>\<open>NULL\<close>);
  \<^item> \<open>io_script\<close> tells, for the stream writes to come, in order, whether each one
    succeeds; once the list is used up, writes succeed.
\<close>

record lurk_state =
  result_config :: "nat option"
  configs :: "nat \<Rightarrow> result_config_t"
  stdout :: string
  stderr :: string
  gmtime_now :: "tm option"
  io_script :: "bool list"

text \<open>
  How a call ends when it does not return: \<^verbatim>\<open>abort()\<close>, or a call through a \<^verbatim>\<open>NULL\<close>
  function pointer (undefined behaviour in C).
\<close>

datatype fatal = Abort | Null_call

text \<open>
  What lies outside the library: how \<^verbatim>\<open>vfprintf\<close> renders the caller's format and
  arguments (\<open>None\<close>: it reports an error), and the functions of the calling program
  that a configuration may name as handlers. A handler may do anything to the state,
  or end the process.
\<close>

record lurk_env =
  vformat :: "string \<Rightarrow> c_arg list \<Rightarrow> string option"
  log_handlers ::
    "nat \<Rightarrow> result_t \<Rightarrow> string option \<Rightarrow> c_arg list \<Rightarrow> lurk_state \<Rightarrow> fatal + lurk_state"
  err_handlers ::
    "nat \<Rightarrow> result_t \<Rightarrow> string option \<Rightarrow> string option \<Rightarrow> string option \<Rightarrow> c_arg list
       \<Rightarrow> lurk_state \<Rightarrow> fatal + lurk_state"

datatype stream = Stdout | Stderr

definition emit :: "stream \<Rightarrow> string \<Rightarrow> lurk_state \<Rightarrow> lurk_state" where
  "emit f txt s =
     (case f of
        Stdout \<Rightarrow> s\<lparr>stdout := stdout s @ txt\<rparr>
      | Stderr \<Rightarrow> s\<lparr>stderr := stderr s @ txt\<rparr>)"

text \<open>
  One write to a stream: the number of characters written and the new state, or a
  negative number when the write fails.
\<close>

definition stream_write :: "stream \<Rightarrow> string \<Rightarrow> lurk_state \<Rightarrow> int \<times> lurk_state" where
  "stream_write f txt s =
     (case io_script s of
        [] \<Rightarrow> (int (length txt), emit f txt s)
      | ok # rest \<Rightarrow>
          if ok then (int (length txt), emit f txt (s\<lparr>io_script := rest\<rparr>))
          else (- 1, s\<lparr>io_script := rest\<rparr>))"

definition fprintf :: "stream \<Rightarrow> string \<Rightarrow> c_arg list \<Rightarrow> lurk_state \<Rightarrow> int \<times> lurk_state" where
  "fprintf f fmt args s =
     (case c_format fmt args of
        None \<Rightarrow> (- 1, s)
      | Some txt \<Rightarrow> stream_write f txt s)"

definition vfprintf ::
  "lurk_env \<Rightarrow> stream \<Rightarrow> string \<Rightarrow> c_arg list \<Rightarrow> lurk_state \<Rightarrow> int \<times> lurk_state" where
  "vfprintf E f fmt args s =
     (case vformat E fmt args of
        None \<Rightarrow> (- 1, s)
      | Some txt \<Rightarrow> stream_write f txt s)"

section \<open>Configuration resolution (lurk.c)\<close>

text \<open>The line feed that the C source writes as \<^verbatim>\<open>"\n"\<close>.\<close>

definition newline :: string where
  "newline = [CHR 0x0A]"

text \<open>\<^verbatim>\<open>static const result_config_t result_config_default\<close>.\<close>

definition result_config_default :: result_config_t where
  "result_config_default =
     \<lparr>projname = Some ''lurk'',
      prefix = Some [],
      postfix = Some newline,
      do_log = True,
      do_err = True,
      log_fn = Some Log_default,
      err_fn = Some Err_default\<rparr>"

definition get_time :: "lurk_state \<Rightarrow> tm" where
  "get_time s =
     (let t = \<lparr>tm_hour = 0, tm_min = 0, tm_sec = 0\<rparr>
      in case gmtime_now s of None \<Rightarrow> t | Some tp \<Rightarrow> tp)"

definition get_config_projname :: "lurk_state \<Rightarrow> string option" where
  "get_config_projname s =
     (case result_config s of
        None \<Rightarrow> projname result_config_default
      | Some p \<Rightarrow>
          (case projname (configs s p) of
             None \<Rightarrow> projname result_config_default
           | Some name \<Rightarrow> Some name))"

definition get_config_prefix :: "lurk_state \<Rightarrow> string option" where
  "get_config_prefix s =
     (case result_config s of
        None \<Rightarrow> prefix result_config_default
      | Some p \<Rightarrow>
          (case prefix (configs s p) of
             None \<Rightarrow> prefix result_config_default
           | Some pre \<Rightarrow> Some pre))"

definition get_config_postfix :: "lurk_state \<Rightarrow> string option" where
  "get_config_postfix s =
     (case result_config s of
        None \<Rightarrow> postfix result_config_default
      | Some p \<Rightarrow>
          (case postfix (configs s p) of
             None \<Rightarrow> postfix result_config_default
           | Some post \<Rightarrow> Some post))"

definition get_config_do_log :: "lurk_state \<Rightarrow> bool" where
  "get_config_do_log s =
     (case result_config s of
        None \<Rightarrow> do_log result_config_default
      | Some p \<Rightarrow> do_log (configs s p))"

definition get_config_do_err :: "lurk_state \<Rightarrow> bool" where
  "get_config_do_err s =
     (case result_config s of
        None \<Rightarrow> do_err result_config_default
      | Some p \<Rightarrow> do_err (configs s p))"

definition get_config_log_fn :: "lurk_state \<Rightarrow> log_fn_ptr option" where
  "get_config_log_fn s =
     (case result_config s of
        None \<Rightarrow> log_fn result_config_default
      | Some p \<Rightarrow>
          (case log_fn (configs s p) of
             None \<Rightarrow> log_fn result_config_default
           | Some fn \<Rightarrow> Some fn))"

definition get_config_err_fn :: "lurk_state \<Rightarrow> err_fn_ptr option" where
  "get_config_err_fn s =
     (case result_config s of
        None \<Rightarrow> err_fn result_config_default
      | Some p \<Rightarrow>
          (case err_fn (configs s p) of
             None \<Rightarrow> err_fn result_config_default
           | Some fn \<Rightarrow> Some fn))"

section \<open>Default reporters and dispatch entry points (lurk.c)\<close>

definition log_default ::
  "lurk_env \<Rightarrow> result_t \<Rightarrow> string option \<Rightarrow> c_arg list \<Rightarrow> lurk_state \<Rightarrow> fatal + lurk_state" where
  "log_default E result fmt args s =
     (case fmt of
        None \<Rightarrow> Inr s
      | Some f \<Rightarrow>
          if \<not> get_config_do_log s then Inr s
          else
            let name = get_config_projname s;
                pre = get_config_prefix s;
                post = get_config_postfix s;
                t = get_time s;
                (n, s1) = fprintf Stdout ''%02d:%02d:%02d  %08x  [%s]  %s''
                            [Arg_int (tm_hour t), Arg_int (tm_min t), Arg_int (tm_sec t),
                             Arg_int result, Arg_str name, Arg_str pre] s
            in if n < 0 then Inl Abort
               else
                 let (n, s2) = vfprintf E Stdout f args s1
                 in if n < 0 then Inl Abort
                    else
                      let (n, s3) = fprintf Stdout ''%s'' [Arg_str post] s2
                      in if n < 0 then Inl Abort else Inr s3)"

definition err_default ::
  "lurk_env \<Rightarrow> result_t \<Rightarrow> string option \<Rightarrow> string option \<Rightarrow> string option \<Rightarrow> c_arg list
     \<Rightarrow> lurk_state \<Rightarrow> fatal + lurk_state" where
  "err_default E result caller loc fmt args s =
     (case fmt of
        None \<Rightarrow> Inr s
      | Some f \<Rightarrow>
          if \<not> get_config_do_err s then Inr s
          else
            let caller = (if caller = None then Some ''(unknown)'' else caller);
                loc = (if loc = None then Some ''???'' else loc);
                t = get_time s;
                name = get_config_projname s;
                pre = get_config_prefix s;
                post = get_config_postfix s;
                (n, s1) = fprintf Stderr ''%02d:%02d:%02d  %08x  [%s:%s.%s]  %s''
                            [Arg_int (tm_hour t), Arg_int (tm_min t), Arg_int (tm_sec t),
                             Arg_int result, Arg_str name, Arg_str caller, Arg_str loc,
                             Arg_str pre] s
            in if n < 0 then Inl Abort
               else
                 let (n, s2) = vfprintf E Stderr f args s1
                 in if n < 0 then Inl Abort
                    else
                      let (n, s3) = fprintf Stderr ''%s'' [Arg_str post] s2
                      in if n < 0 then Inl Abort else Inr s3)"

text \<open>The calls \<^verbatim>\<open>(*log_fn)(...)\<close> and \<^verbatim>\<open>(*err_fn)(...)\<close> through a function pointer.\<close>

definition call_log_fn ::
  "lurk_env \<Rightarrow> log_fn_ptr option \<Rightarrow> result_t \<Rightarrow> string option \<Rightarrow> c_arg list \<Rightarrow> lurk_state
     \<Rightarrow> fatal + lurk_state" where
  "call_log_fn E fn result fmt args s =
     (case fn of
        None \<Rightarrow> Inl Null_call
      | Some Log_default \<Rightarrow> log_default E result fmt args s
      | Some (Log_custom k) \<Rightarrow> log_handlers E k result fmt args s)"

definition call_err_fn ::
  "lurk_env \<Rightarrow> err_fn_ptr option \<Rightarrow> result_t \<Rightarrow> string option \<Rightarrow> string option
     \<Rightarrow> string option \<Rightarrow> c_arg list \<Rightarrow> lurk_state \<Rightarrow> fatal + lurk_state" where
  "call_err_fn E fn result caller loc fmt args s =
     (case fn of
        None \<Rightarrow> Inl Null_call
      | Some Err_default \<Rightarrow> err_default E result caller loc fmt args s
      | Some (Err_custom k) \<Rightarrow> err_handlers E k result caller loc fmt args s)"

definition lurk_set_result_config :: "nat option \<Rightarrow> lurk_state \<Rightarrow> result_t \<times> lurk_state" where
  "lurk_set_result_config config s = (RESULT_SUCCESS, s\<lparr>result_config := config\<rparr>)"

definition lurk_log ::
  "lurk_env \<Rightarrow> result_t \<Rightarrow> string option \<Rightarrow> c_arg list \<Rightarrow> lurk_state
     \<Rightarrow> fatal + result_t \<times> lurk_state" where
  "lurk_log E result fmt args s =
     (if fmt = None then Inr (result, s)
      else if \<not> get_config_do_log s then Inr (result, s)
      else
        let fn = get_config_log_fn s
        in case call_log_fn E fn result fmt args s of
             Inl e \<Rightarrow> Inl e
           | Inr s' \<Rightarrow> Inr (result, s'))"

definition lurk_err ::
  "lurk_env \<Rightarrow> result_t \<Rightarrow> string option \<Rightarrow> string option \<Rightarrow> string option \<Rightarrow> c_arg list
     \<Rightarrow> lurk_state \<Rightarrow> fatal + result_t \<times> lurk_state" where
  "lurk_err E result caller loc fmt args s =
     (if fmt = None then Inr (result, s)
      else if \<not> get_config_do_err s then Inr (result, s)
      else
        let fn = get_config_err_fn s
        in case call_err_fn E fn result caller loc fmt args s of
             Inl e \<Rightarrow> Inl e
           | Inr s' \<Rightarrow> Inr (result, s'))"

text \<open>
  \<^verbatim>\<open>RETURN_BAD_PARAM_NULL(config)\<close> in \<^verbatim>\<open>lurk_get_defaults\<close>, with
  \<^verbatim>\<open>LURK_NO_CALL_RETURN_ERROR\<close> not defined, expands to
  \<^verbatim>\<open>lurk_err(RESULT_BAD_PARAM, __func__, LURK_LINE_STRING,
  "Bad parameter [""config""]. Must not be [NULL]")\<close>. \<^verbatim>\<open>LURK_LINE_STRING\<close> is the number
  of the source line of the macro call, as text.
\<close>

definition lurk_get_defaults_line :: string where
  "lurk_get_defaults_line = ''133''"

definition RETURN_BAD_PARAM_NULL ::
  "lurk_env \<Rightarrow> string \<Rightarrow> string \<Rightarrow> string \<Rightarrow> lurk_state \<Rightarrow> fatal + result_t \<times> lurk_state" where
  "RETURN_BAD_PARAM_NULL E func line param s =
     lurk_err E RESULT_BAD_PARAM (Some func) (Some line)
       (Some (''Bad parameter ['' @ param @ '']. Must not be [NULL]'')) [] s"

definition lurk_get_defaults ::
  "lurk_env \<Rightarrow> nat option \<Rightarrow> lurk_state \<Rightarrow> fatal + result_t \<times> lurk_state" where
  "lurk_get_defaults E config s =
     (case config of
        None \<Rightarrow> RETURN_BAD_PARAM_NULL E ''lurk_get_defaults'' lurk_get_defaults_line ''config'' s
      | Some p \<Rightarrow>
          Inr (RESULT_SUCCESS, s\<lparr>configs := (configs s)(p := result_config_default)\<rparr>))"

section \<open>The second translation unit (src/unnamed/part\_001)\<close>

text \<open>
  The repository holds a second C file that defines the same external functions
  (\<^verbatim>\<open>lurk_log\<close>, \<^verbatim>\<open>lurk_err\<close>, \<^verbatim>\<open>log_default\<close>, \<^verbatim>\<open>err_default\<close>, the \<^verbatim>\<open>get_config_\<close>
  functions). It is an earlier draft of lurk.c: its reporters and handlers return a
  \<^verbatim>\<open>result_t\<close> where result.h types them \<^verbatim>\<open>void\<close>, so it is not built against that
  header and is not the program the statements below are about. Its default record
  initialises neither \<^verbatim>\<open>.prefix\<close> nor \<^verbatim>\<open>.postfix\<close> (so both are \<^verbatim>\<open>NULL\<close>), and no
  function reads these two fields. Its definitions carry the suffix \<open>_part_001\<close> here
  and are kept for comparison.
\<close>

record lurk_env_part_001 =
  vformat_1 :: "string \<Rightarrow> c_arg list \<Rightarrow> string option"
  log_handlers_1 ::
    "nat \<Rightarrow> result_t \<Rightarrow> string option \<Rightarrow> c_arg list \<Rightarrow> lurk_state
       \<Rightarrow> fatal + result_t \<times> lurk_state"
  err_handlers_1 ::
    "nat \<Rightarrow> result_t \<Rightarrow> string option \<Rightarrow> string option \<Rightarrow> string option \<Rightarrow> c_arg list
       \<Rightarrow> lurk_state \<Rightarrow> fatal + result_t \<times> lurk_state"

definition vfprintf_part_001 ::
  "lurk_env_part_001 \<Rightarrow> stream \<Rightarrow> string \<Rightarrow> c_arg list \<Rightarrow> lurk_state \<Rightarrow> int \<times> lurk_state" where
  "vfprintf_part_001 E f fmt args s =
     (case vformat_1 E fmt args of
        None \<Rightarrow> (- 1, s)
      | Some txt \<Rightarrow> stream_write f txt s)"

definition result_config_default_part_001 :: result_config_t where
  "result_config_default_part_001 =
     \<lparr>projname = Some ''lurk'',
      prefix = None,
      postfix = None,
      do_log = True,
      do_err = True,
      log_fn = Some Log_default,
      err_fn = Some Err_default\<rparr>"

definition get_config_projname_part_001 :: "lurk_state \<Rightarrow> string option" where
  "get_config_projname_part_001 s =
     (case result_config s of
        None \<Rightarrow> projname result_config_default_part_001
      | Some p \<Rightarrow>
          (case projname (configs s p) of
             None \<Rightarrow> projname result_config_default_part_001
           | Some name \<Rightarrow> Some name))"

definition get_config_do_log_part_001 :: "lurk_state \<Rightarrow> bool" where
  "get_config_do_log_part_001 s =
     (case result_config s of
        None \<Rightarrow> do_log result_config_default_part_001
      | Some p \<Rightarrow> do_log (configs s p))"

definition get_config_do_err_part_001 :: "lurk_state \<Rightarrow> bool" where
  "get_config_do_err_part_001 s =
     (case result_config s of
        None \<Rightarrow> do_err result_config_default_part_001
      | Some p \<Rightarrow> do_err (configs s p))"

definition get_config_log_fn_part_001 :: "lurk_state \<Rightarrow> log_fn_ptr option" where
  "get_config_log_fn_part_001 s =
     (case result_config s of
        None \<Rightarrow> log_fn result_config_default_part_001
      | Some p \<Rightarrow>
          (case log_fn (configs s p) of
             None \<Rightarrow> log_fn result_config_default_part_001
           | Some fn \<Rightarrow> Some fn))"

definition get_config_err_fn_part_001 :: "lurk_state \<Rightarrow> err_fn_ptr option" where
  "get_config_err_fn_part_001 s =
     (case result_config s of
        None \<Rightarrow> err_fn result_config_default_part_001
      | Some p \<Rightarrow>
          (case err_fn (configs s p) of
             None \<Rightarrow> err_fn result_config_default_part_001
           | Some fn \<Rightarrow> Some fn))"

definition log_default_part_001 ::
  "lurk_env_part_001 \<Rightarrow> result_t \<Rightarrow> string option \<Rightarrow> c_arg list \<Rightarrow> lurk_state
     \<Rightarrow> fatal + result_t \<times> lurk_state" where
  "log_default_part_001 E result fmt args s =
     (case fmt of
        None \<Rightarrow> Inr (RESULT_BAD_PARAM, s)
      | Some f \<Rightarrow>
          if \<not> get_config_do_log_part_001 s then Inr (result, s)
          else
            let name = get_config_projname_part_001 s;
                t = get_time s;
                (n, s1) = fprintf Stdout ''%02d:%02d:%02d  %08x  [%s]  ''
                            [Arg_int (tm_hour t), Arg_int (tm_min t), Arg_int (tm_sec t),
                             Arg_int result, Arg_str name] s
            in if n < 0 then Inl Abort
               else
                 let (n, s2) = vfprintf_part_001 E Stdout f args s1
                 in if n < 0 then Inl Abort
                    else
                      let (n, s3) = fprintf Stdout newline [] s2
                      in if n < 0 then Inl Abort else Inr (result, s3))"

definition err_default_part_001 ::
  "lurk_env_part_001 \<Rightarrow> result_t \<Rightarrow> string option \<Rightarrow> string option \<Rightarrow> string option
     \<Rightarrow> c_arg list \<Rightarrow> lurk_state \<Rightarrow> fatal + result_t \<times> lurk_state" where
  "err_default_part_001 E result caller loc fmt args s =
     (case fmt of
        None \<Rightarrow> Inr (RESULT_BAD_PARAM, s)
      | Some f \<Rightarrow>
          if \<not> get_config_do_err_part_001 s then Inr (result, s)
          else
            let caller = (if caller = None then Some ''(unknown)'' else caller);
                loc = (if loc = None then Some ''???'' else loc);
                t = get_time s;
                name = get_config_projname_part_001 s;
                (n, s1) = fprintf Stderr ''%02d:%02d:%02d  %08x  [%s:%s.%s]  ''
                            [Arg_int (tm_hour t), Arg_int (tm_min t), Arg_int (tm_sec t),
                             Arg_int result, Arg_str name, Arg_str caller, Arg_str loc] s
            in if n < 0 then Inl Abort
               else
                 let (n, s2) = vfprintf_part_001 E Stderr f args s1
                 in if n < 0 then Inl Abort
                    else
                      let (n, s3) = fprintf Stderr newline [] s2
                      in if n < 0 then Inl Abort else Inr (result, s3))"

definition call_log_fn_part_001 ::
  "lurk_env_part_001 \<Rightarrow> log_fn_ptr option \<Rightarrow> result_t \<Rightarrow> string option \<Rightarrow> c_arg list
     \<Rightarrow> lurk_state \<Rightarrow> fatal + result_t \<times> lurk_state" where
  "call_log_fn_part_001 E fn result fmt args s =
     (case fn of
        None \<Rightarrow> Inl Null_call
      | Some Log_default \<Rightarrow> log_default_part_001 E result fmt args s
      | Some (Log_custom k) \<Rightarrow> log_handlers_1 E k result fmt args s)"

definition call_err_fn_part_001 ::
  "lurk_env_part_001 \<Rightarrow> err_fn_ptr option \<Rightarrow> result_t \<Rightarrow> string option \<Rightarrow> string option
     \<Rightarrow> string option \<Rightarrow> c_arg list \<Rightarrow> lurk_state \<Rightarrow> fatal + result_t \<times> lurk_state" where
  "call_err_fn_part_001 E fn result caller loc fmt args s =
     (case fn of
        None \<Rightarrow> Inl Null_call
      | Some Err_default \<Rightarrow> err_default_part_001 E result caller loc fmt args s
      | Some (Err_custom k) \<Rightarrow> err_handlers_1 E k result caller loc fmt args s)"

text \<open>
  \<^verbatim>\<open>lurk_log\<close> of this file assigns the handler's return value to \<^verbatim>\<open>result\<close> and then
  returns \<^verbatim>\<open>RESULT_SUCCESS\<close>; \<^verbatim>\<open>lurk_err\<close> returns the handler's return value.
\<close>

definition lurk_log_part_001 ::
  "lurk_env_part_001 \<Rightarrow> result_t \<Rightarrow> string option \<Rightarrow> c_arg list \<Rightarrow> lurk_state
     \<Rightarrow> fatal + result_t \<times> lurk_state" where
  "lurk_log_part_001 E result fmt args s =
     (if fmt = None then Inr (RESULT_BAD_PARAM, s)
      else if \<not> get_config_do_log_part_001 s then Inr (RESULT_SUCCESS, s)
      else
        let fn = get_config_log_fn_part_001 s
        in case call_log_fn_part_001 E fn result fmt args s of
             Inl e \<Rightarrow> Inl e
           | Inr (result, s') \<Rightarrow> Inr (RESULT_SUCCESS, s'))"

definition lurk_err_part_001 ::
  "lurk_env_part_001 \<Rightarrow> result_t \<Rightarrow> string option \<Rightarrow> string option \<Rightarrow> string option
     \<Rightarrow> c_arg list \<Rightarrow> lurk_state \<Rightarrow> fatal + result_t \<times> lurk_state" where
  "lurk_err_part_001 E result caller loc fmt args s =
     (if fmt = None then Inr (RESULT_BAD_PARAM, s)
      else if \<not> get_config_do_err_part_001 s then Inr (RESULT_SUCCESS, s)
      else
        let fn = get_config_err_fn_part_001 s
        in case call_err_fn_part_001 E fn result caller loc fmt args s of
             Inl e \<Rightarrow> Inl e
           | Inr (result, s') \<Rightarrow> Inr (result, s'))"

section \<open>Vocabulary of the statements\<close>

text \<open>
  A number written with exactly \<open>k\<close> digits in base \<open>b\<close>, most significant digit first,
  with leading zeros: what "two-digit zero-padded" and "eight zero-padded hex digits" mean.
\<close>

fun fixed_digits :: "nat \<Rightarrow> nat \<Rightarrow> nat \<Rightarrow> string" where
  "fixed_digits b 0 n = []"
| "fixed_digits b (Suc k) n = fixed_digits b k (n div b) @ [digit_char (n mod b)]"

text \<open>The next \<open>n\<close> stream writes succeed.\<close>

definition writes_ok :: "nat \<Rightarrow> lurk_state \<Rightarrow> bool" where
  "writes_ok n s = list_all (\<lambda>ok. ok) (take n (io_script s))"

text \<open>The ranges \<^verbatim>\<open>gmtime\<close> keeps the three fields in.\<close>

definition tm_in_range :: "tm \<Rightarrow> bool" where
  "tm_in_range t =
     (0 \<le> sint (tm_hour t) \<and> sint (tm_hour t) < 24 \<and>
      0 \<le> sint (tm_min t) \<and> sint (tm_min t) < 60 \<and>
      0 \<le> sint (tm_sec t) \<and> sint (tm_sec t) \<le> 60)"

text \<open>The text \<^verbatim>\<open>%02d:%02d:%02d\<close> gives for a time.\<close>

definition time_text :: "tm \<Rightarrow> string" where
  "time_text t =
     conv_d True 2 (tm_hour t) @ '':'' @ conv_d True 2 (tm_min t) @ '':'' @
     conv_d True 2 (tm_sec t)"

section \<open>Concrete states and environments\<close>

text \<open>
  A process at its start: no override installed, nothing written yet, the clock at
  12:05:59, every write succeeding. The configuration memory holds all-zero structs.
\<close>

definition zero_config :: result_config_t where
  "zero_config =
     \<lparr>projname = None, prefix = None, postfix = None, do_log = False, do_err = False,
      log_fn = None, err_fn = None\<rparr>"

definition s_init :: lurk_state where
  "s_init =
     \<lparr>result_config = None,
      configs = (\<lambda>p. zero_config),
      stdout = [],
      stderr = [],
      gmtime_now = Some \<lparr>tm_hour = 12, tm_min = 5, tm_sec = 59\<rparr>,
      io_script = []\<rparr>"

text \<open>
  \<^verbatim>\<open>result_config_t c = { .projname = "app" };\<close> stored at address 0: the members
  without an initialiser are zero.
\<close>

definition only_projname :: result_config_t where
  "only_projname = zero_config\<lparr>projname := Some ''app''\<rparr>"

definition s_only_projname :: lurk_state where
  "s_only_projname = s_init\<lparr>configs := (configs s_init)(0 := only_projname)\<rparr>"

text \<open>
  An override at address 0 that starts from the defaults and sets a prefix and a
  postfix, already installed.
\<close>

definition decorated :: result_config_t where
  "decorated = result_config_default\<lparr>prefix := Some ''> '', postfix := Some '' <''\<rparr>"

definition s_decorated :: lurk_state where
  "s_decorated = s_init\<lparr>result_config := Some 0, configs := (configs s_init)(0 := decorated)\<rparr>"

text \<open>
  The same override with handlers of the calling program installed on both channels.
\<close>

definition s_custom :: lurk_state where
  "s_custom =
     s_init\<lparr>result_config := Some 0,
            configs := (configs s_init)
              (0 := decorated\<lparr>log_fn := Some (Log_custom 7), err_fn := Some (Err_custom 8)\<rparr>)\<rparr>"

text \<open>
  An environment whose \<^verbatim>\<open>vfprintf\<close> renders as the model's printf does and whose
  custom handlers write a fixed word to their stream; for the second C file the handlers
  also return \<^verbatim>\<open>RESULT_DONE\<close>.
\<close>

definition env0 :: lurk_env where
  "env0 =
     \<lparr>vformat = c_format,
      log_handlers = (\<lambda>k result fmt args s. Inr (emit Stdout ''custom'' s)),
      err_handlers = (\<lambda>k result caller loc fmt args s. Inr (emit Stderr ''custom'' s))\<rparr>"

definition env0_part_001 :: lurk_env_part_001 where
  "env0_part_001 =
     \<lparr>vformat_1 = c_format,
      log_handlers_1 = (\<lambda>k result fmt args s. Inr (RESULT_DONE, emit Stdout ''custom'' s)),
      err_handlers_1 =
        (\<lambda>k result caller loc fmt args s. Inr (RESULT_DONE, emit Stderr ''custom'' s))\<rparr>"

section \<open>Properties of the classification predicates\<close>

lemmas result_enum_defs =
  RESULT_INVALID_OBJECT_def RESULT_INTERNAL_ERROR_def RESULT_BAD_PARAM_def
  RESULT_SUCCESS_def RESULT_FAILURE_def RESULT_DONE_def RESULT_VALID_OBJECT_def
  RESULT_TRUE_def RESULT_FALSE_def c_true_def c_false_def

lemma sint_result_enum:
  "sint RESULT_INVALID_OBJECT = - 2"
  "sint RESULT_INTERNAL_ERROR = - 3"
  "sint RESULT_BAD_PARAM = - 1"
  "sint RESULT_SUCCESS = 0"
  "sint RESULT_FAILURE = 1"
  "sint RESULT_DONE = 2"
  by (simp_all add: result_enum_defs)

lemma sint_eq_iff: "(sint (a :: c_int) = sint b) = (a = b)"
  by (auto intro: signed_word_eqI)

text \<open>
  Claim C7. For every value \<open>r\<close> of \<^verbatim>\<open>result_t\<close>, \<^verbatim>\<open>is_lurk_err(r)\<close> is true exactly when
  \<open>r\<close> is one of the three named errors, \<^verbatim>\<open>RESULT_INVALID_OBJECT\<close> (-2),
  \<^verbatim>\<open>RESULT_INTERNAL_ERROR\<close> (-3) and \<^verbatim>\<open>RESULT_BAD_PARAM\<close> (-1), and false for every other
  value, the other negative ones included.
\<close>

theorem is_lurk_err_named:
  "(is_lurk_err r =
      (r = RESULT_INVALID_OBJECT \<or> r = RESULT_INTERNAL_ERROR \<or> r = RESULT_BAD_PARAM))
   \<and> (is_lurk_err r = (sint r = - 2 \<or> sint r = - 3 \<or> sint r = - 1))"
proof -
  have named: "is_lurk_err r =
      (r = RESULT_INVALID_OBJECT \<or> r = RESULT_INTERNAL_ERROR \<or> r = RESULT_BAD_PARAM)"
    by (simp add: is_lurk_err_def)
  have vals: "(r = RESULT_INVALID_OBJECT) = (sint r = - 2)"
             "(r = RESULT_INTERNAL_ERROR) = (sint r = - 3)"
             "(r = RESULT_BAD_PARAM) = (sint r = - 1)"
    using sint_eq_iff [of r RESULT_INVALID_OBJECT] sint_eq_iff [of r RESULT_INTERNAL_ERROR]
      sint_eq_iff [of r RESULT_BAD_PARAM]
    by (simp_all add: sint_result_enum)
  show ?thesis using named vals by simp
qed

text \<open>
  Claim C9. Since \<^verbatim>\<open>RESULT_FALSE\<close>, \<^verbatim>\<open>RESULT_SUCCESS\<close> and \<^verbatim>\<open>RESULT_VALID_OBJECT\<close> are all 0
  and \<^verbatim>\<open>RESULT_TRUE\<close> and \<^verbatim>\<open>RESULT_FAILURE\<close> are both 1, the predicates agree on every
  value: \<^verbatim>\<open>is_false\<close>, \<^verbatim>\<open>is_success\<close> and \<^verbatim>\<open>is_valid_object\<close> are the same function, and
  so are \<^verbatim>\<open>is_true\<close> and \<^verbatim>\<open>is_failure\<close>.
\<close>

theorem predicates_coincide:
  "is_false r = is_success r \<and> is_success r = is_valid_object r \<and> is_true r = is_failure r"
  by (simp add: is_false_def is_success_def is_valid_object_def is_true_def is_failure_def
      result_enum_defs)

section \<open>Evaluating formats and conversions\<close>

lemmas hex_digits_eval =
  hex_digits.simps [of "numeral k" for k] hex_digits.simps [of 0] hex_digits.simps [of 1]
  hex_digits.simps [of "Suc 0"]

lemmas dec_digits_eval =
  dec_digits.simps [of "numeral k" for k] dec_digits.simps [of 0] dec_digits.simps [of 1]
  dec_digits.simps [of "Suc 0"]

lemma replicate_num: "replicate (numeral k) x = x # replicate (pred_numeral k) x"
  by (simp only: numeral_eq_Suc replicate_Suc)

lemma unat_minus_1_32: "unat (- 1 :: 32 word) = 4294967295"
  by (simp add: unsigned_minus_1_eq_mask mask_eq_exp_minus_1)

lemmas conv_eval = conv_x_def conv_d_def pad_to_def hex_digits_eval dec_digits_eval digit_char_def
  replicate_num unat_minus_1_32 word_sless_alt

lemma conv_x_BAD_PARAM: "conv_x True 8 RESULT_BAD_PARAM = ''ffffffff''"
  by (simp add: conv_eval RESULT_BAD_PARAM_def)

lemma conv_x_FAILURE: "conv_x True 8 RESULT_FAILURE = ''00000001''"
  by (simp add: conv_eval RESULT_FAILURE_def)

lemma conv_d_0: "conv_d True 2 0 = ''00''"
  by (simp add: conv_eval)

lemma conv_d_ex: "conv_d True 2 12 = ''12''" "conv_d True 2 5 = ''05''" "conv_d True 2 59 = ''59''"
  by (simp_all add: conv_eval)

lemma digit_val_lits: "digit_val (CHR ''2'') = 2" "digit_val (CHR ''8'') = 8"
  by (simp_all add: digit_val_def)

lemma log_format_eval:
  "c_format ''%02d:%02d:%02d  %08x  [%s]  %s''
     [Arg_int h, Arg_int m, Arg_int sec, Arg_int r, Arg_str (Some pn), Arg_str (Some pre)]
   = Some (conv_d True 2 h @ '':'' @ conv_d True 2 m @ '':'' @ conv_d True 2 sec @ ''  '' @
           conv_x True 8 r @ ''  ['' @ pn @ '']  '' @ pre)"
  by (simp add: c_format_def is_digit_def digit_val_lits conv_s_def pad_to_def
      del: add_2_eq_Suc add_2_eq_Suc')

lemma err_format_eval:
  "c_format ''%02d:%02d:%02d  %08x  [%s:%s.%s]  %s''
     [Arg_int h, Arg_int m, Arg_int sec, Arg_int r, Arg_str (Some pn), Arg_str (Some c),
      Arg_str (Some l), Arg_str (Some pre)]
   = Some (conv_d True 2 h @ '':'' @ conv_d True 2 m @ '':'' @ conv_d True 2 sec @ ''  '' @
           conv_x True 8 r @ ''  ['' @ pn @ '':'' @ c @ ''.'' @ l @ '']  '' @ pre)"
  by (simp add: c_format_def is_digit_def digit_val_lits conv_s_def pad_to_def
      del: add_2_eq_Suc add_2_eq_Suc')

lemma log_format_eval_part_001:
  "c_format ''%02d:%02d:%02d  %08x  [%s]  ''
     [Arg_int h, Arg_int m, Arg_int sec, Arg_int r, Arg_str (Some pn)]
   = Some (conv_d True 2 h @ '':'' @ conv_d True 2 m @ '':'' @ conv_d True 2 sec @ ''  '' @
           conv_x True 8 r @ ''  ['' @ pn @ '']  '')"
  by (simp add: c_format_def is_digit_def digit_val_lits conv_s_def pad_to_def
      del: add_2_eq_Suc add_2_eq_Suc')

lemma err_format_eval_part_001:
  "c_format ''%02d:%02d:%02d  %08x  [%s:%s.%s]  ''
     [Arg_int h, Arg_int m, Arg_int sec, Arg_int r, Arg_str (Some pn), Arg_str (Some c),
      Arg_str (Some l)]
   = Some (conv_d True 2 h @ '':'' @ conv_d True 2 m @ '':'' @ conv_d True 2 sec @ ''  '' @
           conv_x True 8 r @ ''  ['' @ pn @ '':'' @ c @ ''.'' @ l @ '']  '')"
  by (simp add: c_format_def is_digit_def digit_val_lits conv_s_def pad_to_def
      del: add_2_eq_Suc add_2_eq_Suc')

lemma s_format_eval: "c_format ''%s'' [Arg_str (Some t)] = Some t"
  by (simp add: c_format_def is_digit_def conv_s_def pad_to_def)

lemma nl_format_eval: "c_format newline [] = Some newline"
  by (simp add: c_format_def newline_def)

lemma get_config_projname_Some: "\<exists>name. get_config_projname s = Some name"
  by (simp add: get_config_projname_def result_config_default_def split: option.split)

lemma get_config_prefix_Some: "\<exists>pre. get_config_prefix s = Some pre"
  by (simp add: get_config_prefix_def result_config_default_def split: option.split)

lemma get_config_postfix_Some: "\<exists>post. get_config_postfix s = Some post"
  by (simp add: get_config_postfix_def result_config_default_def split: option.split)

lemma get_config_log_fn_Some: "\<exists>fn. get_config_log_fn s = Some fn"
  by (simp add: get_config_log_fn_def result_config_default_def split: option.split)

lemma get_config_err_fn_Some: "\<exists>fn. get_config_err_fn s = Some fn"
  by (simp add: get_config_err_fn_def result_config_default_def split: option.split)

section \<open>Fixed-width digits\<close>

lemma hex_digits_ne: "hex_digits n \<noteq> []"
  by (subst hex_digits.simps) simp

lemma dec_digits_ne: "dec_digits n \<noteq> []"
  by (subst dec_digits.simps) simp

lemma digit_char_0: "digit_char 0 = CHR ''0''"
  by (simp add: digit_char_def)

lemma fixed_digits_0: "0 < b \<Longrightarrow> fixed_digits b k 0 = replicate k (CHR ''0'')"
  by (induction k) (simp_all add: digit_char_0 replicate_append_same)

lemma length_fixed_digits: "length (fixed_digits b k n) = k"
  by (induction k arbitrary: n) simp_all

lemma pad_to_snoc: "pad_to (Suc k) c (xs @ [x]) = pad_to k c xs @ [x]"
  by (simp add: pad_to_def)

lemma pad_hex_digits: "n < 16 ^ Suc k \<Longrightarrow> pad_to (Suc k) (CHR ''0'') (hex_digits n) = fixed_digits 16 (Suc k) n"
proof (induction k arbitrary: n)
  case 0
  then show ?case by (simp add: hex_digits.simps [of n] pad_to_def)
next
  case (Suc k)
  show ?case
  proof (cases "n < 16")
    case True
    then show ?thesis
      by (simp add: hex_digits.simps [of n] pad_to_def fixed_digits_0 digit_char_0
          replicate_append_same)
  next
    case False
    from Suc.prems have "n div 16 < 16 ^ Suc k"
      by (simp add: less_mult_imp_div_less)
    then have ih: "pad_to (Suc k) (CHR ''0'') (hex_digits (n div 16)) = fixed_digits 16 (Suc k) (n div 16)"
      by (rule Suc.IH)
    from False have "hex_digits n = hex_digits (n div 16) @ [digit_char (n mod 16)]"
      by (simp add: hex_digits.simps [of n])
    then show ?thesis using ih by (simp add: pad_to_snoc)
  qed
qed

lemma pad_dec_digits: "n < 10 ^ Suc k \<Longrightarrow> pad_to (Suc k) (CHR ''0'') (dec_digits n) = fixed_digits 10 (Suc k) n"
proof (induction k arbitrary: n)
  case 0
  then show ?case by (simp add: dec_digits.simps [of n] pad_to_def)
next
  case (Suc k)
  show ?case
  proof (cases "n < 10")
    case True
    then show ?thesis
      by (simp add: dec_digits.simps [of n] pad_to_def fixed_digits_0 digit_char_0
          replicate_append_same)
  next
    case False
    from Suc.prems have "n div 10 < 10 ^ Suc k"
      by (simp add: less_mult_imp_div_less)
    then have ih: "pad_to (Suc k) (CHR ''0'') (dec_digits (n div 10)) = fixed_digits 10 (Suc k) (n div 10)"
      by (rule Suc.IH)
    from False have "dec_digits n = dec_digits (n div 10) @ [digit_char (n mod 10)]"
      by (simp add: dec_digits.simps [of n])
    then show ?thesis using ih by (simp add: pad_to_snoc)
  qed
qed

lemma conv_x_8: "conv_x True 8 r = fixed_digits 16 8 (unat r)"
proof -
  have "unat r < 2 ^ 32" using unsigned_less [of r, where ?'a = nat] by simp
  then have "unat r < 16 ^ Suc 7" by simp
  then have "pad_to (Suc 7) (CHR ''0'') (hex_digits (unat r)) = fixed_digits 16 (Suc 7) (unat r)"
    by (rule pad_hex_digits)
  then show ?thesis by (simp add: conv_x_def)
qed

lemma conv_d_2:
  assumes "0 \<le> sint v" and "sint v < 100"
  shows "conv_d True 2 v = fixed_digits 10 2 (nat (sint v))"
proof -
  have "nat (sint v) < 10 ^ Suc 1" using assms by simp
  then have "pad_to (Suc 1) (CHR ''0'') (dec_digits (nat (sint v))) = fixed_digits 10 (Suc 1) (nat (sint v))"
    by (rule pad_dec_digits)
  moreover have "\<not> v <s 0" using assms by (simp add: word_sless_alt)
  moreover have "\<bar>sint v\<bar> = sint v" using assms by simp
  ultimately show ?thesis by (simp add: conv_d_def numeral_2_eq_2)
qed

lemma time_text_in_range:
  "tm_in_range t \<Longrightarrow>
   time_text t = fixed_digits 10 2 (nat (sint (tm_hour t))) @ '':'' @
                 fixed_digits 10 2 (nat (sint (tm_min t))) @ '':'' @
                 fixed_digits 10 2 (nat (sint (tm_sec t)))"
  by (simp add: time_text_def tm_in_range_def conv_d_2)

lemma stream_write_ok:
  "writes_ok (Suc n) s \<Longrightarrow>
   stream_write f txt s = (int (length txt), emit f txt (s\<lparr>io_script := tl (io_script s)\<rparr>))"
  by (cases "io_script s") (simp_all add: stream_write_def writes_ok_def emit_def split: stream.split)

lemma writes_ok_emit_tl:
  "writes_ok (Suc n) s \<Longrightarrow> writes_ok n (emit f txt (s\<lparr>io_script := tl (io_script s)\<rparr>))"
  by (cases "io_script s") (simp_all add: writes_ok_def emit_def split: stream.split)

lemma stream_write_fails:
  "\<not> writes_ok (Suc 0) s \<Longrightarrow> fst (stream_write f txt s) < 0"
  by (cases "io_script s") (simp_all add: stream_write_def writes_ok_def)

section \<open>What the default reporters write\<close>

lemma emit_emit: "emit f b (emit f a s) = emit f (a @ b) s"
  by (cases f) (simp_all add: emit_def)

lemma io_script_emit: "io_script (emit f a s) = io_script s"
  by (cases f) (simp_all add: emit_def)

lemma emit_io_script_update: "(emit f a s)\<lparr>io_script := x\<rparr> = emit f a (s\<lparr>io_script := x\<rparr>)"
  by (cases f) (simp_all add: emit_def)

lemma three_writes:
  assumes ok: "writes_ok 3 s"
  shows "stream_write f a s = (int (length a), emit f a (s\<lparr>io_script := tl (io_script s)\<rparr>))"
    and "stream_write f b (emit f a (s\<lparr>io_script := tl (io_script s)\<rparr>)) =
           (int (length b), emit f (a @ b) (s\<lparr>io_script := tl (tl (io_script s))\<rparr>))"
    and "stream_write f c (emit f (a @ b) (s\<lparr>io_script := tl (tl (io_script s))\<rparr>)) =
           (int (length c), emit f (a @ b @ c) (s\<lparr>io_script := drop 3 (io_script s)\<rparr>))"
proof -
  from ok have ok3: "writes_ok (Suc (Suc (Suc 0))) s" by (simp add: numeral_3_eq_3)
  show 1: "stream_write f a s = (int (length a), emit f a (s\<lparr>io_script := tl (io_script s)\<rparr>))"
    using ok3 by (rule stream_write_ok)
  let ?s1 = "emit f a (s\<lparr>io_script := tl (io_script s)\<rparr>)"
  have ok2: "writes_ok (Suc (Suc 0)) ?s1" using ok3 by (rule writes_ok_emit_tl)
  have "stream_write f b ?s1 = (int (length b), emit f b (?s1\<lparr>io_script := tl (io_script ?s1)\<rparr>))"
    using ok2 by (rule stream_write_ok)
  then show 2: "stream_write f b ?s1 =
           (int (length b), emit f (a @ b) (s\<lparr>io_script := tl (tl (io_script s))\<rparr>))"
    by (simp add: emit_emit io_script_emit emit_io_script_update)
  let ?s2 = "emit f (a @ b) (s\<lparr>io_script := tl (tl (io_script s))\<rparr>)"
  have "writes_ok (Suc 0) (emit f b (?s1\<lparr>io_script := tl (io_script ?s1)\<rparr>))"
    using ok2 by (rule writes_ok_emit_tl)
  then have ok1: "writes_ok (Suc 0) ?s2"
    by (simp add: emit_emit io_script_emit emit_io_script_update)
  have "stream_write f c ?s2 = (int (length c), emit f c (?s2\<lparr>io_script := tl (io_script ?s2)\<rparr>))"
    using ok1 by (rule stream_write_ok)
  then show "stream_write f c ?s2 =
           (int (length c), emit f (a @ b @ c) (s\<lparr>io_script := drop 3 (io_script s)\<rparr>))"
    by (simp add: emit_emit io_script_emit emit_io_script_update drop_Suc numeral_3_eq_3)
qed

lemma log_default_line:
  assumes do_log: "get_config_do_log s"
    and ok: "writes_ok 3 s"
    and msg: "vformat E f args = Some msg"
    and name: "get_config_projname s = Some name"
    and pre: "get_config_prefix s = Some pre"
    and post: "get_config_postfix s = Some post"
  shows "log_default E result (Some f) args s =
     Inr (s\<lparr>stdout := stdout s @ time_text (get_time s) @ ''  '' @ conv_x True 8 result @
                       ''  ['' @ name @ '']  '' @ pre @ msg @ post,
            io_script := drop 3 (io_script s)\<rparr>)"
  using do_log msg name pre post three_writes [OF ok, of Stdout]
  by (simp add: log_default_def fprintf_def vfprintf_def log_format_eval s_format_eval
      time_text_def emit_def Let_def)

lemma err_default_line:
  assumes do_err: "get_config_do_err s"
    and ok: "writes_ok 3 s"
    and msg: "vformat E f args = Some msg"
    and name: "get_config_projname s = Some name"
    and pre: "get_config_prefix s = Some pre"
    and post: "get_config_postfix s = Some post"
  shows "err_default E result caller loc (Some f) args s =
     Inr (s\<lparr>stderr := stderr s @ time_text (get_time s) @ ''  '' @ conv_x True 8 result @
                       ''  ['' @ name @ '':'' @
                       (case caller of None \<Rightarrow> ''(unknown)'' | Some c \<Rightarrow> c) @ ''.'' @
                       (case loc of None \<Rightarrow> ''???'' | Some l \<Rightarrow> l) @ '']  '' @ pre @ msg @ post,
            io_script := drop 3 (io_script s)\<rparr>)"
  using do_err msg name pre post three_writes [OF ok, of Stderr]
  by (cases caller; cases loc)
     (simp_all add: err_default_def fprintf_def vfprintf_def err_format_eval s_format_eval
      time_text_def emit_def Let_def)

section \<open>Configuration and dispatch\<close>

lemma c_format_plain:
  "c_format ''queue empty'' [] = Some ''queue empty''"
  "c_format ''bad arg'' [] = Some ''bad arg''"
  "c_format ''Bad parameter [config]. Must not be [NULL]'' [] =
     Some ''Bad parameter [config]. Must not be [NULL]''"
  by (simp_all add: c_format_def)

lemma s_init_fields:
  "result_config s_init = None" "stdout s_init = []" "stderr s_init = []"
  "io_script s_init = []" "get_time s_init = \<lparr>tm_hour = 12, tm_min = 5, tm_sec = 59\<rparr>"
  by (simp_all add: s_init_def get_time_def)

lemma time_text_s_init:
  "time_text \<lparr>tm_hour = 12, tm_min = 5, tm_sec = 59\<rparr> = ''12:05:59''"
  by (simp add: time_text_def conv_eval)

lemma s_init_script: "s_init\<lparr>io_script := []\<rparr> = s_init"
  by (simp add: s_init_def)

lemma writes_ok_s_init: "writes_ok n s_init"
  by (simp add: writes_ok_def s_init_def)

text \<open>
  Claim C3, as the code has it. After \<^verbatim>\<open>lurk_set_result_config(&c)\<close> the five pointer
  fields (project name, prefix, postfix, log handler, error handler) each resolve to the
  override's value when it is set and to the default's value for that field alone when
  it is \<^verbatim>\<open>NULL\<close>. The two enable flags are plain \<^verbatim>\<open>bool\<close> members with no unset state:
  they always resolve to the override's own value.
\<close>

theorem override_resolution:
  "(let s' = snd (lurk_set_result_config (Some p) s); c = configs s p
    in get_config_projname s' =
         (if projname c = None then projname result_config_default else projname c) \<and>
       get_config_prefix s' =
         (if prefix c = None then prefix result_config_default else prefix c) \<and>
       get_config_postfix s' =
         (if postfix c = None then postfix result_config_default else postfix c) \<and>
       get_config_log_fn s' =
         (if log_fn c = None then log_fn result_config_default else log_fn c) \<and>
       get_config_err_fn s' =
         (if err_fn c = None then err_fn result_config_default else err_fn c) \<and>
       get_config_do_log s' = do_log c \<and>
       get_config_do_err s' = do_err c)"
  by (simp add: lurk_set_result_config_def get_config_projname_def get_config_prefix_def
      get_config_postfix_def get_config_log_fn_def get_config_err_fn_def get_config_do_log_def
      get_config_do_err_def Let_def split: option.split)

text \<open>
  Claim C3 as stated fails for the enable flags. The override
  \<^verbatim>\<open>{ .projname = "app" }\<close> has \<^verbatim>\<open>do_log\<close> and \<^verbatim>\<open>do_err\<close> zero-initialised, so
  both channels resolve to false, while the defaults are true.
\<close>

theorem only_projname_disables_channels:
  "get_config_do_log (snd (lurk_set_result_config (Some 0) s_only_projname))
     \<noteq> do_log result_config_default \<and>
   get_config_do_err (snd (lurk_set_result_config (Some 0) s_only_projname))
     \<noteq> do_err result_config_default"
  by (simp add: lurk_set_result_config_def get_config_do_log_def get_config_do_err_def
      s_only_projname_def s_init_def only_projname_def zero_config_def result_config_default_def)

lemma resolved_defaults:
  assumes "result_config s = None"
  shows "get_config_projname s = projname result_config_default"
    and "get_config_prefix s = prefix result_config_default"
    and "get_config_postfix s = postfix result_config_default"
    and "get_config_do_log s = do_log result_config_default"
    and "get_config_do_err s = do_err result_config_default"
    and "get_config_log_fn s = log_fn result_config_default"
    and "get_config_err_fn s = err_fn result_config_default"
  using assms
  by (simp_all add: get_config_projname_def get_config_prefix_def
      get_config_postfix_def get_config_log_fn_def get_config_err_fn_def get_config_do_log_def
      get_config_do_err_def)

text \<open>
  Claim C5. \<^verbatim>\<open>lurk_set_result_config\<close> returns \<^verbatim>\<open>RESULT_SUCCESS\<close> for every argument,
  \<^verbatim>\<open>NULL\<close> included. After \<^verbatim>\<open>lurk_set_result_config(NULL)\<close> the state is the given one
  with the pointer \<^verbatim>\<open>NULL\<close>, as in a process that never installed a configuration:
  all seven fields resolve to the compiled-in defaults, \<^verbatim>\<open>lurk_log\<close> and \<^verbatim>\<open>lurk_err\<close>
  run the default reporters, and installing any configuration and then \<^verbatim>\<open>NULL\<close> again
  leads back to this very state.
\<close>

theorem set_result_config_null_restores:
  "fst (lurk_set_result_config config s) = RESULT_SUCCESS \<and>
   (let s' = snd (lurk_set_result_config None s)
    in s' = s\<lparr>result_config := None\<rparr> \<and>
       get_config_projname s' = projname result_config_default \<and>
       get_config_prefix s' = prefix result_config_default \<and>
       get_config_postfix s' = postfix result_config_default \<and>
       get_config_do_log s' = do_log result_config_default \<and>
       get_config_do_err s' = do_err result_config_default \<and>
       get_config_log_fn s' = log_fn result_config_default \<and>
       get_config_err_fn s' = err_fn result_config_default \<and>
       lurk_log E r fmt args s' =
         (case log_default E r fmt args s' of Inl e \<Rightarrow> Inl e | Inr t \<Rightarrow> Inr (r, t)) \<and>
       lurk_err E r caller loc fmt args s' =
         (case err_default E r caller loc fmt args s' of Inl e \<Rightarrow> Inl e | Inr t \<Rightarrow> Inr (r, t)) \<and>
       snd (lurk_set_result_config None (snd (lurk_set_result_config config s'))) = s')"
proof -
  let ?s' = "s\<lparr>result_config := None\<rparr>"
  have none: "result_config ?s' = None" by simp
  have log: "lurk_log E r fmt args ?s' =
         (case log_default E r fmt args ?s' of Inl e \<Rightarrow> Inl e | Inr t \<Rightarrow> Inr (r, t))"
    by (cases fmt)
       (simp_all add: lurk_log_def call_log_fn_def log_default_def resolved_defaults [OF none]
        result_config_default_def)
  have err: "lurk_err E r caller loc fmt args ?s' =
         (case err_default E r caller loc fmt args ?s' of Inl e \<Rightarrow> Inl e | Inr t \<Rightarrow> Inr (r, t))"
    by (cases fmt)
       (simp_all add: lurk_err_def call_err_fn_def err_default_def resolved_defaults [OF none]
        result_config_default_def)
  show ?thesis
    using log err
    by (simp add: lurk_set_result_config_def Let_def resolved_defaults [OF none])
qed

lemma get_config_projname_part_001_eq: "get_config_projname_part_001 s = get_config_projname s"
  by (simp add: get_config_projname_part_001_def get_config_projname_def
      result_config_default_part_001_def result_config_default_def split: option.split)

lemma get_config_do_log_part_001_eq: "get_config_do_log_part_001 s = get_config_do_log s"
  by (simp add: get_config_do_log_part_001_def get_config_do_log_def
      result_config_default_part_001_def result_config_default_def split: option.split)

lemma get_config_do_err_part_001_eq: "get_config_do_err_part_001 s = get_config_do_err s"
  by (simp add: get_config_do_err_part_001_def get_config_do_err_def
      result_config_default_part_001_def result_config_default_def split: option.split)

lemma get_config_log_fn_part_001_eq: "get_config_log_fn_part_001 s = get_config_log_fn s"
  by (simp add: get_config_log_fn_part_001_def get_config_log_fn_def
      result_config_default_part_001_def result_config_default_def split: option.split)

lemma get_config_err_fn_part_001_eq: "get_config_err_fn_part_001 s = get_config_err_fn s"
  by (simp add: get_config_err_fn_part_001_def get_config_err_fn_def
      result_config_default_part_001_def result_config_default_def split: option.split)

lemmas part_001_resolution =
  get_config_projname_part_001_eq get_config_do_log_part_001_eq get_config_do_err_part_001_eq
  get_config_log_fn_part_001_eq get_config_err_fn_part_001_eq

lemma log_default_part_001_line:
  assumes do_log: "get_config_do_log s"
    and ok: "writes_ok 3 s"
    and msg: "vformat_1 E f args = Some msg"
    and name: "get_config_projname s = Some name"
  shows "log_default_part_001 E result (Some f) args s =
     Inr (result,
          s\<lparr>stdout := stdout s @ time_text (get_time s) @ ''  '' @ conv_x True 8 result @
                       ''  ['' @ name @ '']  '' @ msg @ newline,
            io_script := drop 3 (io_script s)\<rparr>)"
  using do_log msg name three_writes [OF ok, of Stdout]
  by (simp add: log_default_part_001_def fprintf_def vfprintf_part_001_def
      log_format_eval_part_001 nl_format_eval part_001_resolution time_text_def emit_def Let_def)

lemma err_default_part_001_line:
  assumes do_err: "get_config_do_err s"
    and ok: "writes_ok 3 s"
    and msg: "vformat_1 E f args = Some msg"
    and name: "get_config_projname s = Some name"
  shows "err_default_part_001 E result caller loc (Some f) args s =
     Inr (result,
          s\<lparr>stderr := stderr s @ time_text (get_time s) @ ''  '' @ conv_x True 8 result @
                       ''  ['' @ name @ '':'' @
                       (case caller of None \<Rightarrow> ''(unknown)'' | Some c \<Rightarrow> c) @ ''.'' @
                       (case loc of None \<Rightarrow> ''???'' | Some l \<Rightarrow> l) @ '']  '' @ msg @ newline,
            io_script := drop 3 (io_script s)\<rparr>)"
  using do_err msg name three_writes [OF ok, of Stderr]
  by (cases caller; cases loc)
     (simp_all add: err_default_part_001_def fprintf_def vfprintf_part_001_def
      err_format_eval_part_001 nl_format_eval part_001_resolution time_text_def emit_def Let_def)

lemma lurk_log_returns_result:
  "lurk_log E r fmt args s = Inr (r', s') \<Longrightarrow> r' = r"
  by (auto simp: lurk_log_def Let_def split: if_splits sum.splits)

lemma lurk_err_returns_result:
  "lurk_err E r caller loc fmt args s = Inr (r', s') \<Longrightarrow> r' = r"
  by (auto simp: lurk_err_def Let_def split: if_splits sum.splits)

lemma lurk_log_ends_in_handler:
  "lurk_log E r fmt args s = Inl e \<Longrightarrow> call_log_fn E (get_config_log_fn s) r fmt args s = Inl e"
  by (auto simp: lurk_log_def Let_def split: if_splits sum.splits)

lemma lurk_err_ends_in_handler:
  "lurk_err E r caller loc fmt args s = Inl e \<Longrightarrow>
   call_err_fn E (get_config_err_fn s) r caller loc fmt args s = Inl e"
  by (auto simp: lurk_err_def Let_def split: if_splits sum.splits)

text \<open>
  In lurk.c a call of an entry point either returns the result it was given, or the
  handler it invoked ended the process.
\<close>

lemma lurk_log_returns_or_ends:
  "(\<exists>s'. lurk_log E r fmt args s = Inr (r, s')) \<or>
   (\<exists>e. lurk_log E r fmt args s = Inl e \<and>
        call_log_fn E (get_config_log_fn s) r fmt args s = Inl e)"
  by (cases "call_log_fn E (get_config_log_fn s) r fmt args s")
     (simp_all add: lurk_log_def Let_def)

lemma lurk_err_returns_or_ends:
  "(\<exists>s'. lurk_err E r caller loc fmt args s = Inr (r, s')) \<or>
   (\<exists>e. lurk_err E r caller loc fmt args s = Inl e \<and>
        call_err_fn E (get_config_err_fn s) r caller loc fmt args s = Inl e)"
  by (cases "call_err_fn E (get_config_err_fn s) r caller loc fmt args s")
     (simp_all add: lurk_err_def Let_def)

text \<open>With the channel disabled nothing is written and the result comes back.\<close>

lemma lurk_log_disabled: "\<not> get_config_do_log s \<Longrightarrow> lurk_log E r fmt args s = Inr (r, s)"
  by (simp add: lurk_log_def)

lemma lurk_err_disabled:
  "\<not> get_config_do_err s \<Longrightarrow> lurk_err E r caller loc fmt args s = Inr (r, s)"
  by (simp add: lurk_err_def)

text \<open>
  The override \<^verbatim>\<open>{ .projname = "app" }\<close>: the pointer fields left out resolve to the
  defaults, the project name to the override's.
\<close>

lemma only_projname_pointer_fields:
  "get_config_projname (snd (lurk_set_result_config (Some 0) s_only_projname)) = Some ''app''"
  "get_config_prefix (snd (lurk_set_result_config (Some 0) s_only_projname)) =
     prefix result_config_default"
  "get_config_postfix (snd (lurk_set_result_config (Some 0) s_only_projname)) =
     postfix result_config_default"
  "get_config_log_fn (snd (lurk_set_result_config (Some 0) s_only_projname)) =
     log_fn result_config_default"
  "get_config_err_fn (snd (lurk_set_result_config (Some 0) s_only_projname)) =
     err_fn result_config_default"
  by (simp_all add: lurk_set_result_config_def get_config_projname_def get_config_prefix_def
      get_config_postfix_def get_config_log_fn_def get_config_err_fn_def s_only_projname_def
      s_init_def only_projname_def zero_config_def)

lemma lurk_log_null_format: "lurk_log E r None args s = Inr (r, s)"
  by (simp add: lurk_log_def)

lemma lurk_err_null_format: "lurk_err E r caller loc None args s = Inr (r, s)"
  by (simp add: lurk_err_def)

lemma s_init_resolved:
  "get_config_projname s_init = Some ''lurk''" "get_config_prefix s_init = Some []"
  "get_config_postfix s_init = Some newline" "get_config_do_log s_init"
  "get_config_do_err s_init" "get_config_log_fn s_init = Some Log_default"
  "get_config_err_fn s_init = Some Err_default"
  by (simp_all add: resolved_defaults [OF s_init_fields(1)] result_config_default_def)

lemma s_custom_resolved:
  "get_config_do_log s_custom" "get_config_do_err s_custom"
  "get_config_log_fn s_custom = Some (Log_custom 7)"
  "get_config_err_fn s_custom = Some (Err_custom 8)"
  by (simp_all add: s_custom_def decorated_def s_init_def result_config_default_def
      get_config_do_log_def get_config_do_err_def get_config_log_fn_def get_config_err_fn_def)

text \<open>
  Claim C1. For every result \<open>r\<close>, every format, caller and location, every state
  (no override or any override, channel enabled or disabled, default or caller-supplied
  handler) and every behaviour of the handlers, \<^verbatim>\<open>lurk_log\<close> and \<^verbatim>\<open>lurk_err\<close> return
  exactly \<open>r\<close> whenever they return; they return whenever the handler they invoke
  returns, and fail to return only when that handler ends the process.
\<close>

theorem entry_points_return_result:
  "(lurk_log E r fmt args s = Inr (r', s') \<longrightarrow> r' = r) \<and>
   (lurk_err E r caller loc fmt args s = Inr (r', s') \<longrightarrow> r' = r) \<and>
   ((\<exists>t. lurk_log E r fmt args s = Inr (r, t)) \<or>
    (\<exists>e. lurk_log E r fmt args s = Inl e \<and>
         call_log_fn E (get_config_log_fn s) r fmt args s = Inl e)) \<and>
   ((\<exists>t. lurk_err E r caller loc fmt args s = Inr (r, t)) \<or>
    (\<exists>e. lurk_err E r caller loc fmt args s = Inl e \<and>
         call_err_fn E (get_config_err_fn s) r caller loc fmt args s = Inl e)) \<and>
   (call_log_fn E (get_config_log_fn s) r fmt args s = Inr t \<longrightarrow>
      (\<exists>u. lurk_log E r fmt args s = Inr (r, u))) \<and>
   (call_err_fn E (get_config_err_fn s) r caller loc fmt args s = Inr t \<longrightarrow>
      (\<exists>u. lurk_err E r caller loc fmt args s = Inr (r, u)))"
proof (intro conjI impI)
  assume "lurk_log E r fmt args s = Inr (r', s')"
  then show "r' = r" by (rule lurk_log_returns_result)
next
  assume "lurk_err E r caller loc fmt args s = Inr (r', s')"
  then show "r' = r" by (rule lurk_err_returns_result)
next
  show "(\<exists>t. lurk_log E r fmt args s = Inr (r, t)) \<or>
    (\<exists>e. lurk_log E r fmt args s = Inl e \<and>
         call_log_fn E (get_config_log_fn s) r fmt args s = Inl e)"
    by (rule lurk_log_returns_or_ends)
next
  show "(\<exists>t. lurk_err E r caller loc fmt args s = Inr (r, t)) \<or>
    (\<exists>e. lurk_err E r caller loc fmt args s = Inl e \<and>
         call_err_fn E (get_config_err_fn s) r caller loc fmt args s = Inl e)"
    by (rule lurk_err_returns_or_ends)
next
  assume "call_log_fn E (get_config_log_fn s) r fmt args s = Inr t"
  then show "\<exists>u. lurk_log E r fmt args s = Inr (r, u)"
    using lurk_log_returns_or_ends [of E r fmt args s] by auto
next
  assume "call_err_fn E (get_config_err_fn s) r caller loc fmt args s = Inr t"
  then show "\<exists>u. lurk_err E r caller loc fmt args s = Inr (r, u)"
    using lurk_err_returns_or_ends [of E r caller loc fmt args s] by auto
qed

text \<open>
  Both entry points with handlers of the calling program installed: the handlers run and
  the results given come back.
\<close>

theorem entry_points_return_result_witness:
  "lurk_log env0 RESULT_FAILURE (Some ''queue empty'') [] s_custom =
     Inr (RESULT_FAILURE, emit Stdout ''custom'' s_custom) \<and>
   lurk_err env0 RESULT_BAD_PARAM None None (Some ''bad arg'') [] s_custom =
     Inr (RESULT_BAD_PARAM, emit Stderr ''custom'' s_custom) \<and>
   call_log_fn env0 (get_config_log_fn s_custom) RESULT_FAILURE (Some ''queue empty'') []
       s_custom = Inr (emit Stdout ''custom'' s_custom) \<and>
   call_err_fn env0 (get_config_err_fn s_custom) RESULT_BAD_PARAM None None (Some ''bad arg'')
       [] s_custom = Inr (emit Stderr ''custom'' s_custom)"
proof -
  have log: "lurk_log env0 RESULT_FAILURE (Some ''queue empty'') [] s_custom =
     Inr (RESULT_FAILURE, emit Stdout ''custom'' s_custom)"
    by (simp add: lurk_log_def call_log_fn_def s_custom_resolved env0_def)
  have err: "lurk_err env0 RESULT_BAD_PARAM None None (Some ''bad arg'') [] s_custom =
     Inr (RESULT_BAD_PARAM, emit Stderr ''custom'' s_custom)"
    by (simp add: lurk_err_def call_err_fn_def s_custom_resolved env0_def)
  have calls:
    "call_log_fn env0 (get_config_log_fn s_custom) RESULT_FAILURE (Some ''queue empty'') []
       s_custom = Inr (emit Stdout ''custom'' s_custom)"
    "call_err_fn env0 (get_config_err_fn s_custom) RESULT_BAD_PARAM None None (Some ''bad arg'')
       [] s_custom = Inr (emit Stderr ''custom'' s_custom)"
    by (simp_all add: call_log_fn_def call_err_fn_def s_custom_resolved env0_def)
  from log err calls
    entry_points_return_result [where E = env0 and r = RESULT_FAILURE
      and fmt = "Some ''queue empty''" and args = "[]" and s = s_custom]
    entry_points_return_result [where E = env0 and r = RESULT_BAD_PARAM
      and fmt = "Some ''bad arg''" and args = "[]" and s = s_custom
      and caller = None and loc = None]
  show ?thesis by simp
qed

text \<open>
  The earlier draft differs: its \<^verbatim>\<open>lurk_log\<close> returns \<^verbatim>\<open>RESULT_SUCCESS\<close> after logging, and
  its \<^verbatim>\<open>lurk_err\<close> returns \<^verbatim>\<open>RESULT_SUCCESS\<close> when the channel is disabled.
\<close>

lemma lurk_log_part_001_returns_success:
  "lurk_log_part_001 env0_part_001 RESULT_FAILURE (Some ''queue empty'') [] s_init =
     Inr (RESULT_SUCCESS,
          s_init\<lparr>stdout := ''12:05:59  00000001  [lurk]  queue empty'' @ newline\<rparr>) \<and>
   RESULT_SUCCESS \<noteq> RESULT_FAILURE \<and>
   lurk_err_part_001 env0_part_001 RESULT_BAD_PARAM None None (Some ''bad arg'') []
       (snd (lurk_set_result_config (Some 0) s_only_projname)) =
     Inr (RESULT_SUCCESS, snd (lurk_set_result_config (Some 0) s_only_projname)) \<and>
   RESULT_SUCCESS \<noteq> RESULT_BAD_PARAM"
proof -
  have disabled: "\<not> get_config_do_err (snd (lurk_set_result_config (Some 0) s_only_projname))"
    by (simp add: lurk_set_result_config_def get_config_do_err_def s_only_projname_def
        s_init_def only_projname_def zero_config_def)
  have "log_default_part_001 env0_part_001 RESULT_FAILURE (Some ''queue empty'') [] s_init =
     Inr (RESULT_FAILURE,
          s_init\<lparr>stdout := ''12:05:59  00000001  [lurk]  queue empty'' @ newline\<rparr>)"
    using log_default_part_001_line [of s_init env0_part_001 "''queue empty''" "[]"
        "''queue empty''" "''lurk''" RESULT_FAILURE]
    by (simp add: s_init_resolved writes_ok_s_init env0_part_001_def c_format_plain
        time_text_s_init conv_x_FAILURE s_init_fields)
  then show ?thesis
    using disabled
    by (simp add: lurk_log_part_001_def call_log_fn_part_001_def lurk_err_part_001_def
        part_001_resolution s_init_resolved result_enum_defs)
qed

text \<open>
  Claim C2, as the code has it. With a \<^verbatim>\<open>NULL\<close> format \<^verbatim>\<open>lurk_log\<close> and \<^verbatim>\<open>lurk_err\<close>
  write nothing, leave the state as it is and return the result they were given. They
  never put \<^verbatim>\<open>RESULT_BAD_PARAM\<close> in its place: the value returned is
  \<^verbatim>\<open>RESULT_BAD_PARAM\<close> exactly when the result passed in is.
\<close>

theorem null_format_returns_result:
  "lurk_log E r None args s = Inr (r, s) \<and>
   lurk_err E r caller loc None args s = Inr (r, s) \<and>
   (lurk_log E r None args s = Inr (RESULT_BAD_PARAM, s)) = (r = RESULT_BAD_PARAM) \<and>
   (lurk_err E r caller loc None args s = Inr (RESULT_BAD_PARAM, s)) = (r = RESULT_BAD_PARAM)"
  by (auto simp: lurk_log_def lurk_err_def)

text \<open>
  Claim C2 as stated says the return value is never \<^verbatim>\<open>RESULT_BAD_PARAM\<close> for a \<^verbatim>\<open>NULL\<close>
  format. It is, when \<^verbatim>\<open>RESULT_BAD_PARAM\<close> is the result passed in.
\<close>

theorem null_format_returns_bad_param_given:
  "lurk_log env0 RESULT_BAD_PARAM None [] s_init = Inr (RESULT_BAD_PARAM, s_init) \<and>
   lurk_err env0 RESULT_BAD_PARAM None None None [] s_init = Inr (RESULT_BAD_PARAM, s_init)"
  by (simp add: lurk_log_def lurk_err_def)

text \<open>
  The earlier draft differs: both entry points return \<^verbatim>\<open>RESULT_BAD_PARAM\<close> for a
  \<^verbatim>\<open>NULL\<close> format, whatever the result passed in.
\<close>

lemma null_format_part_001_returns_bad_param:
  "lurk_log_part_001 E r None args s = Inr (RESULT_BAD_PARAM, s) \<and>
   lurk_err_part_001 E r caller loc None args s = Inr (RESULT_BAD_PARAM, s) \<and>
   lurk_log_part_001 env0_part_001 RESULT_SUCCESS None [] s_init
     \<noteq> Inr (RESULT_SUCCESS, s_init)"
  by (simp add: lurk_log_part_001_def lurk_err_part_001_def result_enum_defs)

section \<open>What a call leaves untouched\<close>

lemma stream_write_frame:
  "result_config (snd (stream_write f txt s)) = result_config s"
  "configs (snd (stream_write f txt s)) = configs s"
  by (cases f; cases "io_script s"; simp add: stream_write_def emit_def)+

lemma stream_write_frame_pair:
  assumes "stream_write f txt s = (n, s')"
  shows "result_config s' = result_config s \<and> configs s' = configs s"
  using stream_write_frame [of f "txt" s] assms by simp

lemma fprintf_frame:
  "fprintf f fmt args s = (n, s') \<Longrightarrow> result_config s' = result_config s \<and> configs s' = configs s"
  by (auto simp: fprintf_def split: option.splits dest: stream_write_frame_pair)

lemma vfprintf_frame:
  "vfprintf E f fmt args s = (n, s') \<Longrightarrow> result_config s' = result_config s \<and> configs s' = configs s"
  by (auto simp: vfprintf_def split: option.splits dest: stream_write_frame_pair)

lemma log_default_frame:
  assumes "log_default E r fmt args s = Inr s'"
  shows "result_config s' = result_config s \<and> configs s' = configs s"
proof (cases fmt)
  case None
  with assms show ?thesis by (simp add: log_default_def)
next
  case (Some f)
  show ?thesis
  proof (cases "get_config_do_log s")
    case False
    with assms Some show ?thesis by (simp add: log_default_def)
  next
    case True
    obtain n1 s1 where w1: "fprintf Stdout ''%02d:%02d:%02d  %08x  [%s]  %s''
        [Arg_int (tm_hour (get_time s)), Arg_int (tm_min (get_time s)),
         Arg_int (tm_sec (get_time s)), Arg_int r, Arg_str (get_config_projname s),
         Arg_str (get_config_prefix s)] s = (n1, s1)"
      by (cases "fprintf Stdout ''%02d:%02d:%02d  %08x  [%s]  %s''
        [Arg_int (tm_hour (get_time s)), Arg_int (tm_min (get_time s)),
         Arg_int (tm_sec (get_time s)), Arg_int r, Arg_str (get_config_projname s),
         Arg_str (get_config_prefix s)] s") simp
    obtain n2 s2 where w2: "vfprintf E Stdout f args s1 = (n2, s2)"
      by (cases "vfprintf E Stdout f args s1") simp
    obtain n3 s3 where w3: "fprintf Stdout ''%s'' [Arg_str (get_config_postfix s)] s2 = (n3, s3)"
      by (cases "fprintf Stdout ''%s'' [Arg_str (get_config_postfix s)] s2") simp
    from assms Some True w1 w2 w3 have "s' = s3"
      by (simp add: log_default_def Let_def split: if_splits)
    with fprintf_frame [OF w1] vfprintf_frame [OF w2] fprintf_frame [OF w3]
    show ?thesis by simp
  qed
qed

lemma err_default_frame:
  assumes "err_default E r caller loc fmt args s = Inr s'"
  shows "result_config s' = result_config s \<and> configs s' = configs s"
proof (cases fmt)
  case None
  with assms show ?thesis by (simp add: err_default_def)
next
  case (Some f)
  show ?thesis
  proof (cases "get_config_do_err s")
    case False
    with assms Some show ?thesis by (simp add: err_default_def)
  next
    case True
    let ?c = "if caller = None then Some ''(unknown)'' else caller"
    let ?l = "if loc = None then Some ''???'' else loc"
    obtain n1 s1 where w1: "fprintf Stderr ''%02d:%02d:%02d  %08x  [%s:%s.%s]  %s''
        [Arg_int (tm_hour (get_time s)), Arg_int (tm_min (get_time s)),
         Arg_int (tm_sec (get_time s)), Arg_int r, Arg_str (get_config_projname s),
         Arg_str ?c, Arg_str ?l, Arg_str (get_config_prefix s)] s = (n1, s1)"
      by (cases "fprintf Stderr ''%02d:%02d:%02d  %08x  [%s:%s.%s]  %s''
        [Arg_int (tm_hour (get_time s)), Arg_int (tm_min (get_time s)),
         Arg_int (tm_sec (get_time s)), Arg_int r, Arg_str (get_config_projname s),
         Arg_str ?c, Arg_str ?l, Arg_str (get_config_prefix s)] s") simp
    obtain n2 s2 where w2: "vfprintf E Stderr f args s1 = (n2, s2)"
      by (cases "vfprintf E Stderr f args s1") simp
    obtain n3 s3 where w3: "fprintf Stderr ''%s'' [Arg_str (get_config_postfix s)] s2 = (n3, s3)"
      by (cases "fprintf Stderr ''%s'' [Arg_str (get_config_postfix s)] s2") simp
    from assms Some True w1 w2 w3 have "s' = s3"
      by (simp add: err_default_def Let_def split: if_splits)
    with fprintf_frame [OF w1] vfprintf_frame [OF w2] fprintf_frame [OF w3]
    show ?thesis by simp
  qed
qed

lemma lurk_log_frame:
  assumes "lurk_log E r fmt args s = Inr (r', s')"
  shows "result_config s' = result_config s \<or>
         (\<exists>k. get_config_log_fn s = Some (Log_custom k) \<and> log_handlers E k r fmt args s = Inr s')"
proof (cases "fmt = None \<or> \<not> get_config_do_log s")
  case True
  with assms show ?thesis by (auto simp: lurk_log_def split: if_splits)
next
  case False
  with assms have call: "call_log_fn E (get_config_log_fn s) r fmt args s = Inr s'"
    by (auto simp: lurk_log_def Let_def split: sum.splits)
  obtain fn where fn: "get_config_log_fn s = Some fn"
    using get_config_log_fn_Some by blast
  show ?thesis
  proof (cases fn)
    case Log_default
    with call fn have "log_default E r fmt args s = Inr s'" by (simp add: call_log_fn_def)
    then show ?thesis using log_default_frame by blast
  next
    case (Log_custom k)
    with call fn show ?thesis by (simp add: call_log_fn_def)
  qed
qed

lemma lurk_err_frame:
  assumes "lurk_err E r caller loc fmt args s = Inr (r', s')"
  shows "result_config s' = result_config s \<or>
         (\<exists>k. get_config_err_fn s = Some (Err_custom k) \<and>
              err_handlers E k r caller loc fmt args s = Inr s')"
proof (cases "fmt = None \<or> \<not> get_config_do_err s")
  case True
  with assms show ?thesis by (auto simp: lurk_err_def split: if_splits)
next
  case False
  with assms have call: "call_err_fn E (get_config_err_fn s) r caller loc fmt args s = Inr s'"
    by (auto simp: lurk_err_def Let_def split: sum.splits)
  obtain fn where fn: "get_config_err_fn s = Some fn"
    using get_config_err_fn_Some by blast
  show ?thesis
  proof (cases fn)
    case Err_default
    with call fn have "err_default E r caller loc fmt args s = Inr s'"
      by (simp add: call_err_fn_def)
    then show ?thesis using err_default_frame by blast
  next
    case (Err_custom k)
    with call fn show ?thesis by (simp add: call_err_fn_def)
  qed
qed

section \<open>Reporter output, defaults retrieval and frame\<close>

lemma s_decorated_resolved:
  "get_config_projname s_decorated = Some ''lurk''" "get_config_prefix s_decorated = Some ''> ''"
  "get_config_postfix s_decorated = Some '' <''" "get_config_do_log s_decorated"
  "get_config_do_err s_decorated" "get_config_log_fn s_decorated = Some Log_default"
  "get_config_err_fn s_decorated = Some Err_default"
  "get_time s_decorated = \<lparr>tm_hour = 12, tm_min = 5, tm_sec = 59\<rparr>"
  "writes_ok n s_decorated" "stdout s_decorated = []" "io_script s_decorated = []"
  by (simp_all add: s_decorated_def decorated_def s_init_def result_config_default_def
      get_config_projname_def get_config_prefix_def get_config_postfix_def get_config_do_log_def
      get_config_do_err_def get_config_log_fn_def get_config_err_fn_def get_time_def
      writes_ok_def)

lemma log_default_format:
  assumes "get_config_do_log s"
    and "writes_ok 3 s"
    and "vformat E f args = Some msg"
    and "get_config_projname s = Some name"
    and "get_config_prefix s = Some pre"
    and "get_config_postfix s = Some post"
    and "tm_in_range (get_time s)"
  shows "log_default E result (Some f) args s =
     Inr (s\<lparr>stdout := stdout s @
              fixed_digits 10 2 (nat (sint (tm_hour (get_time s)))) @ '':'' @
              fixed_digits 10 2 (nat (sint (tm_min (get_time s)))) @ '':'' @
              fixed_digits 10 2 (nat (sint (tm_sec (get_time s)))) @ ''  '' @
              fixed_digits 16 8 (unat result) @ ''  ['' @ name @ '']  '' @ pre @ msg @ post,
            io_script := drop 3 (io_script s)\<rparr>)"
  using log_default_line [OF assms(1-6), of result] time_text_in_range [OF assms(7)]
  by (simp add: conv_x_8)

lemma lurk_log_default_format:
  assumes "get_config_do_log s"
    and "get_config_log_fn s = Some Log_default"
    and "writes_ok 3 s"
    and "vformat E f args = Some msg"
    and "get_config_projname s = Some name"
    and "get_config_prefix s = Some pre"
    and "get_config_postfix s = Some post"
    and "tm_in_range (get_time s)"
  shows "lurk_log E result (Some f) args s =
     Inr (result,
          s\<lparr>stdout := stdout s @
              fixed_digits 10 2 (nat (sint (tm_hour (get_time s)))) @ '':'' @
              fixed_digits 10 2 (nat (sint (tm_min (get_time s)))) @ '':'' @
              fixed_digits 10 2 (nat (sint (tm_sec (get_time s)))) @ ''  '' @
              fixed_digits 16 8 (unat result) @ ''  ['' @ name @ '']  '' @ pre @ msg @ post,
            io_script := drop 3 (io_script s)\<rparr>)"
  using log_default_format [OF assms(1) assms(3-8), of result] assms(1,2)
  by (simp add: lurk_log_def call_log_fn_def)

lemma fixed_digits_num:
  "fixed_digits b (numeral k) n = fixed_digits b (pred_numeral k) (n div b) @ [digit_char (n mod b)]"
  by (simp only: numeral_eq_Suc fixed_digits.simps)

text \<open>
  Claim C6. With the log channel enabled, the three writes succeeding and the time
  fields in the ranges of \<^verbatim>\<open>gmtime\<close>, the default log reporter appends to standard output,
  and to nothing else: hour, minute and second in two digits each with colons between,
  two blanks, the result in eight zero-padded hex digits, two blanks, the configured
  project name in brackets, two blanks, the configured prefix, the formatted message and
  the configured postfix, with nothing in between. \<^verbatim>\<open>lurk_log\<close> does the same when no
  handler of the calling program is installed, and returns the result.
\<close>

theorem default_log_line:
  assumes "get_config_do_log s"
    and "writes_ok 3 s"
    and "vformat E f args = Some msg"
    and "get_config_projname s = Some name"
    and "get_config_prefix s = Some pre"
    and "get_config_postfix s = Some post"
    and "tm_in_range (get_time s)"
  shows "log_default E result (Some f) args s =
     Inr (s\<lparr>stdout := stdout s @
              fixed_digits 10 2 (nat (sint (tm_hour (get_time s)))) @ '':'' @
              fixed_digits 10 2 (nat (sint (tm_min (get_time s)))) @ '':'' @
              fixed_digits 10 2 (nat (sint (tm_sec (get_time s)))) @ ''  '' @
              fixed_digits 16 8 (unat result) @ ''  ['' @ name @ '']  '' @ pre @ msg @ post,
            io_script := drop 3 (io_script s)\<rparr>) \<and>
   (get_config_log_fn s = Some Log_default \<longrightarrow>
    lurk_log E result (Some f) args s =
     Inr (result,
          s\<lparr>stdout := stdout s @
              fixed_digits 10 2 (nat (sint (tm_hour (get_time s)))) @ '':'' @
              fixed_digits 10 2 (nat (sint (tm_min (get_time s)))) @ '':'' @
              fixed_digits 10 2 (nat (sint (tm_sec (get_time s)))) @ ''  '' @
              fixed_digits 16 8 (unat result) @ ''  ['' @ name @ '']  '' @ pre @ msg @ post,
            io_script := drop 3 (io_script s)\<rparr>)) \<and>
   length (fixed_digits 10 2 (nat (sint (tm_hour (get_time s))))) = 2 \<and>
   length (fixed_digits 10 2 (nat (sint (tm_min (get_time s))))) = 2 \<and>
   length (fixed_digits 10 2 (nat (sint (tm_sec (get_time s))))) = 2 \<and>
   length (fixed_digits 16 8 (unat result)) = 8"
  using log_default_format [OF assms, of result]
    lurk_log_default_format [OF assms(1) _ assms(2-7), of result]
  by (simp add: length_fixed_digits)

text \<open>
  The scenario \<^verbatim>\<open>lurk_log(RESULT_FAILURE, "queue empty")\<close> under the default
  configuration at 12:05:59.
\<close>

theorem default_log_line_witness:
  "get_config_do_log s_init \<and> writes_ok 3 s_init \<and>
   vformat env0 ''queue empty'' [] = Some ''queue empty'' \<and>
   get_config_projname s_init = Some ''lurk'' \<and> get_config_prefix s_init = Some [] \<and>
   get_config_postfix s_init = Some newline \<and> tm_in_range (get_time s_init) \<and>
   get_config_log_fn s_init = Some Log_default \<and>
   log_default env0 RESULT_FAILURE (Some ''queue empty'') [] s_init =
     Inr (s_init\<lparr>stdout := ''12:05:59  00000001  [lurk]  queue empty'' @ newline\<rparr>) \<and>
   lurk_log env0 RESULT_FAILURE (Some ''queue empty'') [] s_init =
     Inr (RESULT_FAILURE,
          s_init\<lparr>stdout := ''12:05:59  00000001  [lurk]  queue empty'' @ newline\<rparr>)"
proof -
  have range: "tm_in_range (get_time s_init)"
    by (simp add: s_init_fields tm_in_range_def)
  have digits:
    "fixed_digits 10 2 (nat (sint (12 :: c_int))) = ''12''"
    "fixed_digits 10 2 (nat (sint (5 :: c_int))) = ''05''"
    "fixed_digits 10 2 (nat (sint (59 :: c_int))) = ''59''"
    "fixed_digits 16 8 (unat RESULT_FAILURE) = ''00000001''"
    by (simp_all add: fixed_digits_num digit_char_def RESULT_FAILURE_def)
  show ?thesis
    using range digits
      default_log_line [of s_init env0 "''queue empty''" "[]" "''queue empty''" "''lurk''"
        "[]" newline RESULT_FAILURE]
    by (simp add: s_init_resolved writes_ok_s_init env0_def c_format_plain s_init_fields)
qed

text \<open>
  The earlier draft differs: its default log reporter reads neither \<^verbatim>\<open>.prefix\<close> nor
  \<^verbatim>\<open>.postfix\<close>, writes the message bare and ends the line with a line feed.
\<close>

lemma log_default_part_001_ignores_prefix_postfix:
  "log_default_part_001 env0_part_001 RESULT_FAILURE (Some ''queue empty'') [] s_decorated =
     Inr (RESULT_FAILURE,
          s_decorated\<lparr>stdout := ''12:05:59  00000001  [lurk]  queue empty'' @ newline\<rparr>) \<and>
   log_default env0 RESULT_FAILURE (Some ''queue empty'') [] s_decorated =
     Inr (s_decorated\<lparr>stdout := ''12:05:59  00000001  [lurk]  > queue empty <''\<rparr>)"
proof -
  have old: "log_default_part_001 env0_part_001 RESULT_FAILURE (Some ''queue empty'') []
      s_decorated =
     Inr (RESULT_FAILURE,
          s_decorated\<lparr>stdout := ''12:05:59  00000001  [lurk]  queue empty'' @ newline\<rparr>)"
    using log_default_part_001_line [of s_decorated env0_part_001 "''queue empty''" "[]"
        "''queue empty''" "''lurk''" RESULT_FAILURE]
    by (simp add: s_decorated_resolved env0_part_001_def c_format_plain
        time_text_s_init conv_x_FAILURE)
  have new: "log_default env0 RESULT_FAILURE (Some ''queue empty'') [] s_decorated =
     Inr (s_decorated\<lparr>stdout := ''12:05:59  00000001  [lurk]  > queue empty <''\<rparr>)"
    using log_default_line [of s_decorated env0 "''queue empty''" "[]"
        "''queue empty''" "''lurk''" "''> ''" "'' <''" RESULT_FAILURE]
    by (simp add: s_decorated_resolved env0_def c_format_plain
        time_text_s_init conv_x_FAILURE)
  from old new show ?thesis by simp
qed

text \<open>
  Claim C8. In the default error reporter, with the error channel enabled and the
  writes succeeding, a \<^verbatim>\<open>NULL\<close> caller is replaced by \<^verbatim>\<open>"(unknown)"\<close> and a \<^verbatim>\<open>NULL\<close>
  location by \<^verbatim>\<open>"???"\<close>, a caller or location that is given is printed as it is, and the
  line goes to standard error with the tag \<^verbatim>\<open>[project:caller.location]\<close>. This holds for
  the reporter of lurk.c and for the one of the second C file.
\<close>

theorem err_default_placeholders:
  assumes "get_config_do_err s"
    and "writes_ok 3 s"
    and "get_config_projname s = Some name"
    and "get_config_prefix s = Some pre"
    and "get_config_postfix s = Some post"
  shows "(vformat E f args = Some msg \<longrightarrow>
          err_default E result caller loc (Some f) args s =
            Inr (s\<lparr>stderr := stderr s @ time_text (get_time s) @ ''  '' @
                     conv_x True 8 result @ ''  ['' @ name @ '':'' @
                     (case caller of None \<Rightarrow> ''(unknown)'' | Some c \<Rightarrow> c) @ ''.'' @
                     (case loc of None \<Rightarrow> ''???'' | Some l \<Rightarrow> l) @ '']  '' @
                     pre @ msg @ post,
                   io_script := drop 3 (io_script s)\<rparr>)) \<and>
         (vformat_1 E1 f args = Some msg \<longrightarrow>
          err_default_part_001 E1 result caller loc (Some f) args s =
            Inr (result,
                 s\<lparr>stderr := stderr s @ time_text (get_time s) @ ''  '' @
                     conv_x True 8 result @ ''  ['' @ name @ '':'' @
                     (case caller of None \<Rightarrow> ''(unknown)'' | Some c \<Rightarrow> c) @ ''.'' @
                     (case loc of None \<Rightarrow> ''???'' | Some l \<Rightarrow> l) @ '']  '' @
                     msg @ newline,
                   io_script := drop 3 (io_script s)\<rparr>))"
  using err_default_line [OF assms(1,2) _ assms(3,4,5)]
    err_default_part_001_line [OF assms(1,2) _ assms(3)]
  by blast

text \<open>
  The scenario \<^verbatim>\<open>lurk_err(RESULT_BAD_PARAM, NULL, NULL, "bad arg")\<close> at the default
  reporters, under the default configuration.
\<close>

theorem err_default_placeholders_witness:
  "get_config_do_err s_init \<and> writes_ok 3 s_init \<and>
   get_config_projname s_init = Some ''lurk'' \<and> get_config_prefix s_init = Some [] \<and>
   get_config_postfix s_init = Some newline \<and>
   vformat env0 ''bad arg'' [] = Some ''bad arg'' \<and>
   err_default env0 RESULT_BAD_PARAM None None (Some ''bad arg'') [] s_init =
     Inr (s_init\<lparr>stderr := ''12:05:59  ffffffff  [lurk:(unknown).???]  bad arg'' @ newline\<rparr>) \<and>
   err_default_part_001 env0_part_001 RESULT_BAD_PARAM None None (Some ''bad arg'') [] s_init =
     Inr (RESULT_BAD_PARAM,
          s_init\<lparr>stderr := ''12:05:59  ffffffff  [lurk:(unknown).???]  bad arg'' @ newline\<rparr>)"
  using err_default_placeholders [of s_init "''lurk''" "[]" newline env0 "''bad arg''" "[]"
      "''bad arg''" RESULT_BAD_PARAM None None env0_part_001]
  by (simp add: s_init_resolved writes_ok_s_init env0_def env0_part_001_def c_format_plain
      s_init_fields time_text_s_init conv_x_BAD_PARAM)

lemma lurk_get_defaults_null_is_lurk_err:
  "lurk_get_defaults E None s =
     lurk_err E RESULT_BAD_PARAM (Some ''lurk_get_defaults'') (Some lurk_get_defaults_line)
       (Some ''Bad parameter [config]. Must not be [NULL]'') [] s"
  by (simp add: lurk_get_defaults_def RETURN_BAD_PARAM_NULL_def)

text \<open>
  Claim C4 says that \<^verbatim>\<open>lurk_get_defaults(NULL)\<close> returns \<^verbatim>\<open>RESULT_BAD_PARAM\<close> and produces
  no output. It returns \<^verbatim>\<open>RESULT_BAD_PARAM\<close>, but through \<^verbatim>\<open>RETURN_BAD_PARAM_NULL\<close>, that
  is through \<^verbatim>\<open>lurk_err\<close>: under the default configuration a line is written to standard
  error.
\<close>

theorem lurk_get_defaults_null_writes_stderr:
  "lurk_get_defaults env0 None s_init =
     Inr (RESULT_BAD_PARAM,
          s_init\<lparr>stderr := ''12:05:59  ffffffff  [lurk:lurk_get_defaults.'' @
                     lurk_get_defaults_line @
                     '']  Bad parameter [config]. Must not be [NULL]'' @ newline\<rparr>)"
  using err_default_line [of s_init env0 "''Bad parameter [config]. Must not be [NULL]''" "[]"
      "''Bad parameter [config]. Must not be [NULL]''" "''lurk''" "[]" newline RESULT_BAD_PARAM
      "Some ''lurk_get_defaults''" "Some lurk_get_defaults_line"]
  by (simp add: lurk_get_defaults_null_is_lurk_err lurk_err_def call_err_fn_def
      s_init_resolved writes_ok_s_init env0_def c_format_plain
      s_init_fields time_text_s_init conv_x_BAD_PARAM)

text \<open>
  Claim C4, as the code has it. With a destination, \<^verbatim>\<open>lurk_get_defaults\<close> stores the
  compiled-in default record there, returns \<^verbatim>\<open>RESULT_SUCCESS\<close> and writes nothing. With
  \<^verbatim>\<open>NULL\<close> it stores nothing and, whenever it returns, returns \<^verbatim>\<open>RESULT_BAD_PARAM\<close>; it
  is silent only when the error channel is disabled. With the channel enabled it calls
  the active error handler with the caller \<^verbatim>\<open>lurk_get_defaults\<close>, the line of the call and
  the message \<^verbatim>\<open>Bad parameter [config]. Must not be [NULL]\<close>; the default handler writes
  that as one line to standard error.
\<close>

theorem lurk_get_defaults_reports:
  "lurk_get_defaults E (Some p) s =
     Inr (RESULT_SUCCESS, s\<lparr>configs := (configs s)(p := result_config_default)\<rparr>) \<and>
   (lurk_get_defaults E None s = Inr (r, s') \<longrightarrow> r = RESULT_BAD_PARAM) \<and>
   (\<not> get_config_do_err s \<longrightarrow> lurk_get_defaults E None s = Inr (RESULT_BAD_PARAM, s)) \<and>
   (get_config_do_err s \<longrightarrow>
      lurk_get_defaults E None s =
        (case call_err_fn E (get_config_err_fn s) RESULT_BAD_PARAM (Some ''lurk_get_defaults'')
                (Some lurk_get_defaults_line)
                (Some ''Bad parameter [config]. Must not be [NULL]'') [] s of
           Inl e \<Rightarrow> Inl e
         | Inr t \<Rightarrow> Inr (RESULT_BAD_PARAM, t))) \<and>
   (get_config_do_err s \<and> get_config_err_fn s = Some Err_default \<and> writes_ok 3 s \<and>
    vformat E ''Bad parameter [config]. Must not be [NULL]'' [] = Some msg \<and>
    get_config_projname s = Some name \<and> get_config_prefix s = Some pre \<and>
    get_config_postfix s = Some post \<longrightarrow>
      lurk_get_defaults E None s =
        Inr (RESULT_BAD_PARAM,
             s\<lparr>stderr := stderr s @ time_text (get_time s) @ ''  '' @
                   conv_x True 8 RESULT_BAD_PARAM @ ''  ['' @ name @ '':lurk_get_defaults.'' @
                   lurk_get_defaults_line @ '']  '' @ pre @ msg @ post,
               io_script := drop 3 (io_script s)\<rparr>))"
proof (intro conjI impI)
  show "lurk_get_defaults E (Some p) s =
     Inr (RESULT_SUCCESS, s\<lparr>configs := (configs s)(p := result_config_default)\<rparr>)"
    by (simp add: lurk_get_defaults_def)
next
  assume "lurk_get_defaults E None s = Inr (r, s')"
  then show "r = RESULT_BAD_PARAM"
    by (simp add: lurk_get_defaults_null_is_lurk_err lurk_err_returns_result)
next
  assume "\<not> get_config_do_err s"
  then show "lurk_get_defaults E None s = Inr (RESULT_BAD_PARAM, s)"
    by (simp add: lurk_get_defaults_null_is_lurk_err lurk_err_def)
next
  assume "get_config_do_err s"
  then show "lurk_get_defaults E None s =
        (case call_err_fn E (get_config_err_fn s) RESULT_BAD_PARAM (Some ''lurk_get_defaults'')
                (Some lurk_get_defaults_line)
                (Some ''Bad parameter [config]. Must not be [NULL]'') [] s of
           Inl e \<Rightarrow> Inl e
         | Inr t \<Rightarrow> Inr (RESULT_BAD_PARAM, t))"
    by (simp add: lurk_get_defaults_null_is_lurk_err lurk_err_def)
next
  assume a: "get_config_do_err s \<and> get_config_err_fn s = Some Err_default \<and> writes_ok 3 s \<and>
    vformat E ''Bad parameter [config]. Must not be [NULL]'' [] = Some msg \<and>
    get_config_projname s = Some name \<and> get_config_prefix s = Some pre \<and>
    get_config_postfix s = Some post"
  then have "err_default E RESULT_BAD_PARAM (Some ''lurk_get_defaults'')
       (Some lurk_get_defaults_line) (Some ''Bad parameter [config]. Must not be [NULL]'') [] s =
     Inr (s\<lparr>stderr := stderr s @ time_text (get_time s) @ ''  '' @
                   conv_x True 8 RESULT_BAD_PARAM @ ''  ['' @ name @ '':lurk_get_defaults.'' @
                   lurk_get_defaults_line @ '']  '' @ pre @ msg @ post,
               io_script := drop 3 (io_script s)\<rparr>)"
    using err_default_line [of s E "''Bad parameter [config]. Must not be [NULL]''" "[]" msg
        name pre post RESULT_BAD_PARAM "Some ''lurk_get_defaults''"
        "Some lurk_get_defaults_line"]
    by simp
  with a show "lurk_get_defaults E None s =
        Inr (RESULT_BAD_PARAM,
             s\<lparr>stderr := stderr s @ time_text (get_time s) @ ''  '' @
                   conv_x True 8 RESULT_BAD_PARAM @ ''  ['' @ name @ '':lurk_get_defaults.'' @
                   lurk_get_defaults_line @ '']  '' @ pre @ msg @ post,
               io_script := drop 3 (io_script s)\<rparr>)"
    by (simp add: lurk_get_defaults_null_is_lurk_err lurk_err_def call_err_fn_def)
qed

lemma s_only_projname_installed:
  "get_config_do_err (snd (lurk_set_result_config (Some 0) s_only_projname)) = False"
  "get_config_do_log (snd (lurk_set_result_config (Some 0) s_only_projname)) = False"
  by (simp_all add: lurk_set_result_config_def get_config_do_err_def get_config_do_log_def
      s_only_projname_def s_init_def only_projname_def zero_config_def)

text \<open>
  The three cases at concrete states: error channel disabled, a destination given, and
  \<^verbatim>\<open>NULL\<close> under the default configuration.
\<close>

theorem lurk_get_defaults_reports_witness:
  "lurk_get_defaults env0 None (snd (lurk_set_result_config (Some 0) s_only_projname)) =
     Inr (RESULT_BAD_PARAM, snd (lurk_set_result_config (Some 0) s_only_projname)) \<and>
   lurk_get_defaults env0 (Some 0) s_init =
     Inr (RESULT_SUCCESS, s_init\<lparr>configs := (configs s_init)(0 := result_config_default)\<rparr>) \<and>
   get_config_do_err s_init \<and> get_config_err_fn s_init = Some Err_default \<and>
   writes_ok 3 s_init \<and>
   get_time s_init = \<lparr>tm_hour = 12, tm_min = 5, tm_sec = 59\<rparr> \<and>
   lurk_get_defaults env0 None s_init =
     Inr (RESULT_BAD_PARAM,
          s_init\<lparr>stderr := time_text \<lparr>tm_hour = 12, tm_min = 5, tm_sec = 59\<rparr> @
                     ''  '' @ conv_x True 8 RESULT_BAD_PARAM @ ''  [lurk:lurk_get_defaults.'' @
                     lurk_get_defaults_line @
                     '']  Bad parameter [config]. Must not be [NULL]'' @ newline\<rparr>)"
proof -
  note inst = lurk_get_defaults_reports [where E = env0 and p = 0
      and msg = "''Bad parameter [config]. Must not be [NULL]''" and name = "''lurk''" and pre = "[]" and post = newline]
  have disabled:
    "lurk_get_defaults env0 None (snd (lurk_set_result_config (Some 0) s_only_projname)) =
       Inr (RESULT_BAD_PARAM, snd (lurk_set_result_config (Some 0) s_only_projname))"
    using inst [where s = "snd (lurk_set_result_config (Some 0) s_only_projname)",
        THEN conjunct2, THEN conjunct2, THEN conjunct1]
    by (simp add: s_only_projname_installed)
  have written:
    "lurk_get_defaults env0 (Some 0) s_init =
       Inr (RESULT_SUCCESS, s_init\<lparr>configs := (configs s_init)(0 := result_config_default)\<rparr>)"
    using inst [where s = s_init, THEN conjunct1] .
  have reported:
    "lurk_get_defaults env0 None s_init =
     Inr (RESULT_BAD_PARAM,
          s_init\<lparr>stderr := time_text \<lparr>tm_hour = 12, tm_min = 5, tm_sec = 59\<rparr> @
                     ''  '' @ conv_x True 8 RESULT_BAD_PARAM @ ''  [lurk:lurk_get_defaults.'' @
                     lurk_get_defaults_line @
                     '']  Bad parameter [config]. Must not be [NULL]'' @ newline\<rparr>)"
    using inst [where s = s_init, THEN conjunct2, THEN conjunct2, THEN conjunct2, THEN conjunct2]
    by (simp add: s_init_resolved writes_ok_s_init env0_def c_format_plain s_init_fields)
  from disabled written reported show ?thesis
    by (simp add: s_init_resolved writes_ok_s_init s_init_fields)
qed

text \<open>
  Claim C10. The static pointer \<^verbatim>\<open>result_config\<close> is assigned by
  \<^verbatim>\<open>lurk_set_result_config\<close> alone. The classification predicates take a result and give a
  truth value: they neither read nor return the state. The default reporters leave the
  pointer and the configuration memory as they were. \<^verbatim>\<open>lurk_log\<close>, \<^verbatim>\<open>lurk_err\<close> and
  \<^verbatim>\<open>lurk_get_defaults\<close> leave the pointer as it was on every returning path of their
  own and of the default reporters; when a handler of the calling program is installed,
  the state they return is exactly the state that handler returned. The compiled-in
  default record is \<^verbatim>\<open>static const\<close>, the constant \<open>result_config_default\<close> here.
\<close>

theorem config_pointer_frame:
  "result_config (snd (lurk_set_result_config c s)) = c \<and>
   (log_default E r fmt args s = Inr s' \<longrightarrow>
      result_config s' = result_config s \<and> configs s' = configs s) \<and>
   (err_default E r caller loc fmt args s = Inr s' \<longrightarrow>
      result_config s' = result_config s \<and> configs s' = configs s) \<and>
   (lurk_log E r fmt args s = Inr (r', s') \<longrightarrow>
      result_config s' = result_config s \<or>
      (\<exists>k. get_config_log_fn s = Some (Log_custom k) \<and>
           log_handlers E k r fmt args s = Inr s')) \<and>
   (lurk_err E r caller loc fmt args s = Inr (r', s') \<longrightarrow>
      result_config s' = result_config s \<or>
      (\<exists>k. get_config_err_fn s = Some (Err_custom k) \<and>
           err_handlers E k r caller loc fmt args s = Inr s')) \<and>
   (lurk_get_defaults E dst s = Inr (r', s') \<longrightarrow>
      result_config s' = result_config s \<or>
      (\<exists>k. get_config_err_fn s = Some (Err_custom k) \<and>
           err_handlers E k RESULT_BAD_PARAM (Some ''lurk_get_defaults'')
             (Some lurk_get_defaults_line)
             (Some ''Bad parameter [config]. Must not be [NULL]'') [] s = Inr s'))"
proof (intro conjI impI)
  show "result_config (snd (lurk_set_result_config c s)) = c"
    by (simp add: lurk_set_result_config_def)
next
  assume "log_default E r fmt args s = Inr s'"
  then show "result_config s' = result_config s" "configs s' = configs s"
    using log_default_frame by blast+
next
  assume "err_default E r caller loc fmt args s = Inr s'"
  then show "result_config s' = result_config s" "configs s' = configs s"
    using err_default_frame by blast+
next
  assume "lurk_log E r fmt args s = Inr (r', s')"
  then show "result_config s' = result_config s \<or>
      (\<exists>k. get_config_log_fn s = Some (Log_custom k) \<and>
           log_handlers E k r fmt args s = Inr s')"
    by (rule lurk_log_frame)
next
  assume "lurk_err E r caller loc fmt args s = Inr (r', s')"
  then show "result_config s' = result_config s \<or>
      (\<exists>k. get_config_err_fn s = Some (Err_custom k) \<and>
           err_handlers E k r caller loc fmt args s = Inr s')"
    by (rule lurk_err_frame)
next
  assume a: "lurk_get_defaults E dst s = Inr (r', s')"
  show "result_config s' = result_config s \<or>
      (\<exists>k. get_config_err_fn s = Some (Err_custom k) \<and>
           err_handlers E k RESULT_BAD_PARAM (Some ''lurk_get_defaults'')
             (Some lurk_get_defaults_line)
             (Some ''Bad parameter [config]. Must not be [NULL]'') [] s = Inr s')"
  proof (cases dst)
    case None
    with a show ?thesis
      using lurk_err_frame [of E RESULT_BAD_PARAM "Some ''lurk_get_defaults''"
          "Some lurk_get_defaults_line" "Some ''Bad parameter [config]. Must not be [NULL]''"
          "[]" s r' s']
      by (simp add: lurk_get_defaults_null_is_lurk_err)
  next
    case (Some p)
    with a show ?thesis by (auto simp: lurk_get_defaults_def)
  qed
qed

text \<open>
  A log call under an installed configuration, an error call under the defaults and a
  \<^verbatim>\<open>lurk_get_defaults\<close> call that overwrites the installed struct: the pointer stays.
\<close>

theorem config_pointer_frame_witness:
  "lurk_log env0 RESULT_FAILURE (Some ''queue empty'') [] s_decorated =
     Inr (RESULT_FAILURE,
          s_decorated\<lparr>stdout := ''12:05:59  00000001  [lurk]  > queue empty <''\<rparr>) \<and>
   result_config (s_decorated\<lparr>stdout := ''12:05:59  00000001  [lurk]  > queue empty <''\<rparr>) =
     result_config s_decorated \<and>
   lurk_err env0 RESULT_BAD_PARAM None None (Some ''bad arg'') [] s_init =
     Inr (RESULT_BAD_PARAM,
          s_init\<lparr>stderr := ''12:05:59  ffffffff  [lurk:(unknown).???]  bad arg'' @ newline\<rparr>) \<and>
   result_config
     (s_init\<lparr>stderr := ''12:05:59  ffffffff  [lurk:(unknown).???]  bad arg'' @ newline\<rparr>) =
     result_config s_init \<and>
   lurk_get_defaults env0 (Some 0) s_decorated =
     Inr (RESULT_SUCCESS,
          s_decorated\<lparr>configs := (configs s_decorated)(0 := result_config_default)\<rparr>) \<and>
   result_config (s_decorated\<lparr>configs := (configs s_decorated)(0 := result_config_default)\<rparr>) =
     result_config s_decorated"
proof -
  have log: "lurk_log env0 RESULT_FAILURE (Some ''queue empty'') [] s_decorated =
     Inr (RESULT_FAILURE,
          s_decorated\<lparr>stdout := ''12:05:59  00000001  [lurk]  > queue empty <''\<rparr>)"
    using log_default_line [of s_decorated env0 "''queue empty''" "[]"
        "''queue empty''" "''lurk''" "''> ''" "'' <''" RESULT_FAILURE]
    by (simp add: lurk_log_def call_log_fn_def s_decorated_resolved env0_def c_format_plain
        time_text_s_init conv_x_FAILURE)
  have err: "lurk_err env0 RESULT_BAD_PARAM None None (Some ''bad arg'') [] s_init =
     Inr (RESULT_BAD_PARAM,
          s_init\<lparr>stderr := ''12:05:59  ffffffff  [lurk:(unknown).???]  bad arg'' @ newline\<rparr>)"
    using err_default_line [of s_init env0 "''bad arg''" "[]" "''bad arg''" "''lurk''" "[]"
        newline RESULT_BAD_PARAM None None]
    by (simp add: lurk_err_def call_err_fn_def s_init_resolved writes_ok_s_init env0_def
        c_format_plain s_init_fields time_text_s_init conv_x_BAD_PARAM)
  have dfl: "lurk_get_defaults env0 (Some 0) s_decorated =
     Inr (RESULT_SUCCESS,
          s_decorated\<lparr>configs := (configs s_decorated)(0 := result_config_default)\<rparr>)"
    by (simp add: lurk_get_defaults_def)
  have "result_config (s_decorated\<lparr>stdout := ''12:05:59  00000001  [lurk]  > queue empty <''\<rparr>) =
     result_config s_decorated"
    using log config_pointer_frame [of None s_decorated env0 RESULT_FAILURE
        "Some ''queue empty''" "[]"
        "s_decorated\<lparr>stdout := ''12:05:59  00000001  [lurk]  > queue empty <''\<rparr>"
        None None RESULT_FAILURE None]
    by (simp add: s_decorated_resolved)
  moreover have "result_config
     (s_init\<lparr>stderr := ''12:05:59  ffffffff  [lurk:(unknown).???]  bad arg'' @ newline\<rparr>) =
     result_config s_init"
    using err config_pointer_frame [of None s_init env0 RESULT_BAD_PARAM
        "Some ''bad arg''" "[]"
        "s_init\<lparr>stderr := ''12:05:59  ffffffff  [lurk:(unknown).???]  bad arg'' @ newline\<rparr>"
        None None RESULT_BAD_PARAM None]
    by (simp add: s_init_resolved)
  moreover have "result_config
      (s_decorated\<lparr>configs := (configs s_decorated)(0 := result_config_default)\<rparr>) =
     result_config s_decorated"
    using dfl config_pointer_frame [of None s_decorated env0 RESULT_SUCCESS
        None "[]"
        "s_decorated\<lparr>configs := (configs s_decorated)(0 := result_config_default)\<rparr>"
        None None RESULT_SUCCESS "Some 0"]
    by (simp add: s_decorated_resolved)
  ultimately show ?thesis using log err dfl by simp
qed

end
